theory Spec2Isabelle
  imports Complex_Main "HOL-Library.Multiset"
begin

section \<open>The remote response\<close>

text \<open>
  \<^verbatim>\<open>thingspeak_dashboard.py\<close> asks the ThingSpeak channel for its feed with one
  \<^verbatim>\<open>requests.get\<close>, turns the \<^verbatim>\<open>feeds\<close> array into a pandas DataFrame and shows
  statistics of it. The model takes the outcome of the request as its input, and what
  pandas reads in a string as parameters: \<open>na s\<close> says that the timestamp string \<open>s\<close>
  stands for no value (as the empty string and \<^verbatim>\<open>NaT\<close> do), \<open>dt f s\<close> is the timestamp
  string \<open>s\<close> read in the format that pandas infers from the string \<open>f\<close>, and \<open>num s\<close> is
  the number string \<open>s\<close> read.

  A feed entry is a JSON object with the keys \<^verbatim>\<open>created_at\<close>, \<^verbatim>\<open>field1\<close> and
  \<^verbatim>\<open>field2\<close>. The channel stamps every entry, so \<^verbatim>\<open>created_at\<close> is a string here;
  a field is a JSON null, a number or a string, and its key may be absent from an
  entry (\<open>None\<close>). Feeds of another shape (an entry with no \<^verbatim>\<open>created_at\<close> key or with one
  that is not a string, a field that is a boolean, an array or an object) are not
  modelled. Sensor readings are IEEE doubles in the program; the model takes them as
  reals and writes NaN as \<open>None\<close>.
\<close>

datatype raw = RNull | RNum real | RStr string

record entry =
  raw_created_at :: string
  raw_field1 :: "raw option"
  raw_field2 :: "raw option"

text \<open>
  What \<^verbatim>\<open>response.json()\<close> gives: the body is not JSON, it is JSON but not an object,
  or it is an object, given by its \<^verbatim>\<open>feeds\<close> member when it has one.
\<close>

datatype payload = Undecodable | NonObject | Object "entry list option"

text \<open>
  \<^verbatim>\<open>requests.get(url)\<close> raises (no connection, timeout, ...) or returns a response with
  its status code and body.
\<close>

datatype http = RequestFailed | Response nat payload

datatype exn =
  RequestException | KeyError string | TypeError | ValueError | IndexError | AttributeError

section \<open>The DataFrame\<close>

text \<open>
  A row of the DataFrame after the conversions of \<^verbatim>\<open>fetch_data\<close>: its index label (the
  position of the entry in the feed), the timestamp in nanoseconds since the epoch,
  already shifted to display time, and the two readings. A row may have no timestamp:
  \<open>None\<close> is NaT.
\<close>

record row =
  label :: nat
  created_at :: "int option"
  field1 :: "real option"
  field2 :: "real option"

text \<open>\<^verbatim>\<open>TZ_OFFSET = timedelta(hours=-3)\<close>, in nanoseconds.\<close>

definition TZ_OFFSET :: int where
  "TZ_OFFSET = - (3 * 3600 * 1000000000)"

text \<open>
  \<^verbatim>\<open>pd.to_numeric(column, errors='coerce')\<close> on one cell. A cell of an entry that lacks
  the key is NaN already; a null is NaN; a number is itself; a string is parsed by
  \<open>num\<close>, the parser of pandas, and is NaN when that fails.
\<close>

definition to_numeric :: "(string \<Rightarrow> real option) \<Rightarrow> raw option \<Rightarrow> real option" where
  "to_numeric num c =
     (case c of
        None \<Rightarrow> None
      | Some RNull \<Rightarrow> None
      | Some (RNum x) \<Rightarrow> Some x
      | Some (RStr s) \<Rightarrow> num s)"

text \<open>
  \<^verbatim>\<open>pd.to_datetime(column, utc=True)\<close> is one call on the whole column. A string that
  stands for no value becomes NaT and raises nothing. The format is inferred once, from
  the first string that is not such a one, and every other string is read in that format;
  one that does not fit makes the call raise (\<open>None\<close>). A column of missing values only
  is a column of NaT. (Where pandas can infer no format, it reads every string on its
  own: that is a \<open>dt\<close> that does not look at \<open>f\<close>.)
\<close>

definition first_non_null :: "(string \<Rightarrow> bool) \<Rightarrow> string list \<Rightarrow> string option" where
  "first_non_null na col = find (\<lambda>s. \<not> na s) col"

definition to_datetime :: "(string \<Rightarrow> bool) \<Rightarrow> (string \<Rightarrow> string \<Rightarrow> int option) \<Rightarrow> string list \<Rightarrow> int option list option" where
  "to_datetime na dt col =
     (case first_non_null na col of
        None \<Rightarrow> Some (map (\<lambda>s. None) col)
      | Some f \<Rightarrow> those (map (\<lambda>s. if na s then Some None else map_option Some (dt f s)) col))"

text \<open>\<^verbatim>\<open>df['created_at'] + TZ_OFFSET\<close> on one cell: NaT stays NaT.\<close>

definition plus_offset :: "int option \<Rightarrow> int option" where
  "plus_offset t = map_option (\<lambda>x. x + TZ_OFFSET) t"

text \<open>
  \<^verbatim>\<open>pd.DataFrame(list_of_dicts)\<close> has a column for every key that some entry carries:
  \<^verbatim>\<open>df['field1']\<close> raises KeyError when no entry has the key.
\<close>

definition has_column :: "(entry \<Rightarrow> raw option) \<Rightarrow> entry list \<Rightarrow> bool" where
  "has_column col feeds = list_ex (\<lambda>e. col e \<noteq> None) feeds"

definition rows :: "nat list \<Rightarrow> int option list \<Rightarrow> real option list \<Rightarrow> real option list \<Rightarrow> row list" where
  "rows ls ts xs ys =
     map (\<lambda>(l, t, x, y). \<lparr>label = l, created_at = t, field1 = x, field2 = y\<rparr>)
       (zip ls (zip ts (zip xs ys)))"

text \<open>
  \<^verbatim>\<open>df.sort_values('created_at')\<close>: the rows that have a timestamp in ascending order of
  it, then the rows that have none (\<^verbatim>\<open>na_position='last'\<close>), each row keeping its label.
  Rows with equal timestamps, and rows without one, stay in the order of the feed here;
  pandas promises no order among them, and no theorem below rests on one.
\<close>

definition sort_values :: "row list \<Rightarrow> row list" where
  "sort_values df =
     sort_key (\<lambda>r. the (created_at r)) (filter (\<lambda>r. created_at r \<noteq> None) df)
       @ filter (\<lambda>r. created_at r = None) df"

text \<open>
  \<^verbatim>\<open>a <= b\<close> on two timestamps as pandas evaluates it: false when one of them is NaT.
\<close>

definition le_time :: "int option \<Rightarrow> int option \<Rightarrow> bool" where
  "le_time a b =
     (case a of
        None \<Rightarrow> False
      | Some x \<Rightarrow> (case b of None \<Rightarrow> False | Some y \<Rightarrow> x \<le> y))"

text \<open>Lines 26 to 35: from the feed to the sorted DataFrame, column by column.\<close>

definition build :: "(string \<Rightarrow> bool) \<Rightarrow> (string \<Rightarrow> string \<Rightarrow> int option) \<Rightarrow> (string \<Rightarrow> real option) \<Rightarrow> entry list \<Rightarrow> exn + row list" where
  "build na dt num feeds =
     (if feeds = [] then Inl (KeyError ''created_at'')
      else case to_datetime na dt (map raw_created_at feeds) of
        None \<Rightarrow> Inl ValueError
      | Some ts \<Rightarrow>
          if \<not> has_column raw_field1 feeds then Inl (KeyError ''field1'')
          else if \<not> has_column raw_field2 feeds then Inl (KeyError ''field2'')
          else Inr (sort_values
            (rows [0..<length feeds]
               (map plus_offset ts)
               (map (\<lambda>e. to_numeric num (raw_field1 e)) feeds)
               (map (\<lambda>e. to_numeric num (raw_field2 e)) feeds))))"

text \<open>
  \<^verbatim>\<open>response.raise_for_status()\<close> raises HTTPError, a RequestException, for the status
  codes 400 to 599.
\<close>

definition raise_for_status :: "nat \<Rightarrow> bool" where
  "raise_for_status status = (400 \<le> status \<and> status < 600)"

text \<open>
  The body of the \<^verbatim>\<open>try\<close>. A body that is not JSON makes \<^verbatim>\<open>response.json()\<close> raise
  \<^verbatim>\<open>requests.exceptions.JSONDecodeError\<close>, a RequestException; \<^verbatim>\<open>data['feeds']\<close> raises
  KeyError on an object without the key and TypeError on JSON that is not an object.
\<close>

definition try_body :: "(string \<Rightarrow> bool) \<Rightarrow> (string \<Rightarrow> string \<Rightarrow> int option) \<Rightarrow> (string \<Rightarrow> real option) \<Rightarrow> http \<Rightarrow> exn + row list" where
  "try_body na dt num r =
     (case r of
        RequestFailed \<Rightarrow> Inl RequestException
      | Response status body \<Rightarrow>
          if raise_for_status status then Inl RequestException
          else (case body of
                  Undecodable \<Rightarrow> Inl RequestException
                | NonObject \<Rightarrow> Inl TypeError
                | Object None \<Rightarrow> Inl (KeyError ''feeds'')
                | Object (Some feeds) \<Rightarrow> build na dt num feeds))"

text \<open>
  The three \<^verbatim>\<open>except\<close> clauses, in their order: each shows a message with
  \<^verbatim>\<open>st.error\<close>, here the text before the exception and the exception.
\<close>

type_synonym notice = "string \<times> exn"

definition handler :: "exn \<Rightarrow> notice" where
  "handler e =
     (case e of
        RequestException \<Rightarrow> (''Error fetching data from ThingSpeak'', e)
      | KeyError k \<Rightarrow> (''Error processing ThingSpeak data'', e)
      | _ \<Rightarrow> (''An unexpected error occurred'', e))"

text \<open>
  \<^verbatim>\<open>fetch_data\<close>: the DataFrame, and the message shown when an exception was caught;
  \<^verbatim>\<open>pd.DataFrame()\<close> has no rows.
\<close>

definition fetch_data :: "(string \<Rightarrow> bool) \<Rightarrow> (string \<Rightarrow> string \<Rightarrow> int option) \<Rightarrow> (string \<Rightarrow> real option) \<Rightarrow> http \<Rightarrow> row list \<times> notice option" where
  "fetch_data na dt num r =
     (case try_body na dt num r of
        Inr df \<Rightarrow> (df, None)
      | Inl e \<Rightarrow> ([], Some (handler e)))"

section \<open>The Home page\<close>

text \<open>
  Positional access \<^verbatim>\<open>series.iloc[i]\<close>: a negative position counts from the end, and a
  position outside the series raises IndexError.
\<close>

definition iloc :: "'a list \<Rightarrow> int \<Rightarrow> exn + 'a" where
  "iloc xs i =
     (if 0 \<le> i \<and> i < int (length xs) then Inr (xs ! nat i)
      else if i < 0 \<and> - i \<le> int (length xs) then Inr (xs ! nat (int (length xs) + i))
      else Inl IndexError)"

text \<open>The difference of two doubles: NaN when one of them is NaN.\<close>

definition minus_nan :: "real option \<Rightarrow> real option \<Rightarrow> real option" where
  "minus_nan a b =
     (case a of
        None \<Rightarrow> None
      | Some x \<Rightarrow> (case b of None \<Rightarrow> None | Some y \<Rightarrow> Some (x - y)))"

text \<open>
  Lines 123 to 125 (and 130 to 132): the two values given to \<^verbatim>\<open>st.metric\<close> for the
  column \<open>f\<close>, the current reading and its difference to the reading before.
\<close>

definition current_temp :: "(row \<Rightarrow> real option) \<Rightarrow> row list \<Rightarrow> exn + real option" where
  "current_temp f df = iloc (map f df) (- 1)"

definition metric :: "(row \<Rightarrow> real option) \<Rightarrow> row list \<Rightarrow> exn + (real option \<times> real option)" where
  "metric f df =
     (case current_temp f df of
        Inl e \<Rightarrow> Inl e
      | Inr cur \<Rightarrow>
          (case iloc (map f df) (- 2) of
             Inl e \<Rightarrow> Inl e
           | Inr prev \<Rightarrow> Inr (cur, minus_nan cur prev)))"

text \<open>\<^verbatim>\<open>Timedelta.days\<close> of a difference of timestamps: the floor of its days.\<close>

definition days :: "int \<Rightarrow> int" where
  "days td = td div 86400000000000"

text \<open>
  \<^verbatim>\<open>t.strftime('%Y-%m-%d %H:%M:%S')\<close>: the text shown for a timestamp, which the
  timestamp stands for here; NaT has no \<^verbatim>\<open>strftime\<close> and raises ValueError.
\<close>

definition strftime :: "int option \<Rightarrow> exn + int" where
  "strftime t = (case t of None \<Rightarrow> Inl ValueError | Some x \<Rightarrow> Inr x)"

text \<open>
  Lines 140 to 145: first and last timestamp, both shown with \<^verbatim>\<open>strftime\<close>, and the
  days between them.
\<close>

definition data_range :: "row list \<Rightarrow> exn + (int \<times> int \<times> int)" where
  "data_range df =
     (case iloc (map created_at df) 0 of
        Inl e \<Rightarrow> Inl e
      | Inr first_timestamp \<Rightarrow>
          (case iloc (map created_at df) (- 1) of
             Inl e \<Rightarrow> Inl e
           | Inr last_timestamp \<Rightarrow>
               (case strftime first_timestamp of
                  Inl e \<Rightarrow> Inl e
                | Inr t0 \<Rightarrow>
                    (case strftime last_timestamp of
                       Inl e \<Rightarrow> Inl e
                     | Inr t1 \<Rightarrow> Inr (t0, t1, days (t1 - t0))))))"

text \<open>
  \<^verbatim>\<open>Series.max()\<close> and \<^verbatim>\<open>Series.min()\<close> skip NaN; a series with no other value
  gives NaN.
\<close>

definition dropna :: "real option list \<Rightarrow> real list" where
  "dropna xs = concat (map (\<lambda>x. case x of None \<Rightarrow> [] | Some v \<Rightarrow> [v]) xs)"

definition series_max :: "real option list \<Rightarrow> real option" where
  "series_max xs = (case dropna xs of [] \<Rightarrow> None | v # vs \<Rightarrow> Some (fold max vs v))"

definition series_min :: "real option list \<Rightarrow> real option" where
  "series_min xs = (case dropna xs of [] \<Rightarrow> None | v # vs \<Rightarrow> Some (fold min vs v))"

text \<open>
  \<^verbatim>\<open>Series.idxmax()\<close> and \<^verbatim>\<open>Series.idxmin()\<close>: one pass over the labelled values that
  skips NaN and replaces the best value so far only by a strictly better one; the
  label of the best value, NaN (\<open>None\<close>) when there is none.
\<close>

fun argbest :: "(real \<Rightarrow> real \<Rightarrow> bool) \<Rightarrow> (nat \<times> real) option \<Rightarrow> (nat \<times> real option) list \<Rightarrow> (nat \<times> real) option" where
  "argbest better best [] = best"
| "argbest better best ((l, None) # xs) = argbest better best xs"
| "argbest better None ((l, Some v) # xs) = argbest better (Some (l, v)) xs"
| "argbest better (Some (k, m)) ((l, Some v) # xs) =
     argbest better (if better v m then Some (l, v) else Some (k, m)) xs"

definition idxmax :: "(row \<Rightarrow> real option) \<Rightarrow> row list \<Rightarrow> nat option" where
  "idxmax f df = map_option fst (argbest (\<lambda>v m. v > m) None (map (\<lambda>r. (label r, f r)) df))"

definition idxmin :: "(row \<Rightarrow> real option) \<Rightarrow> row list \<Rightarrow> nat option" where
  "idxmin f df = map_option fst (argbest (\<lambda>v m. v < m) None (map (\<lambda>r. (label r, f r)) df))"

text \<open>
  \<^verbatim>\<open>df.loc[l, 'created_at']\<close>: the timestamp of the row labelled \<open>l\<close>, which may be NaT.
  The label NaN is no label of the frame (KeyError); were several rows to carry the
  label, the result would be a series, which has no \<^verbatim>\<open>strftime\<close>.
\<close>

definition loc :: "row list \<Rightarrow> nat option \<Rightarrow> exn + int option" where
  "loc df l =
     (case l of
        None \<Rightarrow> Inl (KeyError ''nan'')
      | Some k \<Rightarrow>
          (case filter (\<lambda>r. label r = k) df of
             [] \<Rightarrow> Inl (KeyError ''label'')
           | [r] \<Rightarrow> Inr (created_at r)
           | _ \<Rightarrow> Inl AttributeError))"

text \<open>
  Lines 152 to 155 (and 161 to 164): maximum, minimum and the timestamps of the rows
  that hold them, for the column \<open>f\<close>.
\<close>

definition extremes :: "(row \<Rightarrow> real option) \<Rightarrow> row list \<Rightarrow> exn + (real option \<times> real option \<times> int option \<times> int option)" where
  "extremes f df =
     (case loc df (idxmax f df) of
        Inl e \<Rightarrow> Inl e
      | Inr max_time \<Rightarrow>
          (case loc df (idxmin f df) of
             Inl e \<Rightarrow> Inl e
           | Inr min_time \<Rightarrow>
               Inr (series_max (map f df), series_min (map f df), max_time, min_time)))"

record statistics =
  current_temp1 :: "real option"
  delta1 :: "real option"
  current_temp2 :: "real option"
  delta2 :: "real option"
  first_timestamp :: int
  last_timestamp :: int
  days_passed :: int
  max_temp1 :: "real option"
  min_temp1 :: "real option"
  max_temp1_time :: int
  min_temp1_time :: int
  max_temp2 :: "real option"
  min_temp2 :: "real option"
  max_temp2_time :: int
  min_temp2_time :: int

datatype page = NoData | Dashboard statistics

text \<open>
  The Home branch of \<^verbatim>\<open>main\<close>, from line 119 on: what the page shows, or the exception
  that leaves \<^verbatim>\<open>main\<close> (nothing there catches one). Lines 156 and 157 (165 and 166)
  show the two timestamps of the extremes with \<^verbatim>\<open>strftime\<close>. Drawing the charts and
  formatting the numbers are left out: they raise nothing.
\<close>

definition home :: "row list \<Rightarrow> exn + page" where
  "home df =
     (if df = [] then Inr NoData
      else case metric field1 df of Inl e \<Rightarrow> Inl e | Inr (c1, d1) \<Rightarrow>
           case metric field2 df of Inl e \<Rightarrow> Inl e | Inr (c2, d2) \<Rightarrow>
           case data_range df of Inl e \<Rightarrow> Inl e | Inr (t0, t1, n) \<Rightarrow>
           case extremes field1 df of Inl e \<Rightarrow> Inl e | Inr (mx1, mn1, max_time1, min_time1) \<Rightarrow>
           case strftime max_time1 of Inl e \<Rightarrow> Inl e | Inr tx1 \<Rightarrow>
           case strftime min_time1 of Inl e \<Rightarrow> Inl e | Inr tn1 \<Rightarrow>
           case extremes field2 df of Inl e \<Rightarrow> Inl e | Inr (mx2, mn2, max_time2, min_time2) \<Rightarrow>
           case strftime max_time2 of Inl e \<Rightarrow> Inl e | Inr tx2 \<Rightarrow>
           case strftime min_time2 of Inl e \<Rightarrow> Inl e | Inr tn2 \<Rightarrow>
           Inr (Dashboard
             \<lparr>current_temp1 = c1, delta1 = d1, current_temp2 = c2, delta2 = d2,
              first_timestamp = t0, last_timestamp = t1, days_passed = n,
              max_temp1 = mx1, min_temp1 = mn1, max_temp1_time = tx1, min_temp1_time = tn1,
              max_temp2 = mx2, min_temp2 = mn2, max_temp2_time = tx2, min_temp2_time = tn2\<rparr>))"

text \<open>\<^verbatim>\<open>main\<close> with Home selected: the message of \<^verbatim>\<open>fetch_data\<close>, if any, and the page.\<close>

definition main :: "(string \<Rightarrow> bool) \<Rightarrow> (string \<Rightarrow> string \<Rightarrow> int option) \<Rightarrow> (string \<Rightarrow> real option) \<Rightarrow> http \<Rightarrow> notice option \<times> (exn + page)" where
  "main na dt num r = (case fetch_data na dt num r of (df, shown) \<Rightarrow> (shown, home df))"

section \<open>Parsers for the examples\<close>

text \<open>
  The theorems below hold for all \<open>na\<close>, \<open>dt\<close> and \<open>num\<close>. The examples need three that
  run. \<open>nat_string\<close> holds of the empty string, \<^verbatim>\<open>NaT\<close> and \<^verbatim>\<open>nan\<close>. \<open>read_like f s\<close> reads
  \<open>s\<close> in the format guessed from \<open>f\<close>, for two kinds of string: the timestamps the channel
  sends, \<^verbatim>\<open>YYYY-MM-DDTHH:MM:SSZ\<close>, and dates with dashes, which are read day first
  when \<open>f\<close> cannot be read month first, and month first otherwise. \<open>decimal\<close> reads
  plain decimal numerals. pandas reads these strings the same way (and more besides,
  which no example uses).
\<close>

definition digit :: "char \<Rightarrow> nat option" where
  "digit = map_of
     [(CHR ''0'', 0), (CHR ''1'', 1), (CHR ''2'', 2), (CHR ''3'', 3), (CHR ''4'', 4),
      (CHR ''5'', 5), (CHR ''6'', 6), (CHR ''7'', 7), (CHR ''8'', 8), (CHR ''9'', 9)]"

definition number :: "string \<Rightarrow> nat option" where
  "number s =
     (if s = [] then None
      else fold (\<lambda>c acc. case (acc, digit c) of (Some n, Some d) \<Rightarrow> Some (10 * n + d) | _ \<Rightarrow> None)
             s (Some 0))"

text \<open>Days from 1970-01-01 to a date of the Gregorian calendar.\<close>

definition days_from_civil :: "int \<Rightarrow> int \<Rightarrow> int \<Rightarrow> int" where
  "days_from_civil y m d =
     (let y' = (if m \<le> 2 then y - 1 else y);
          era = y' div 400;
          yoe = y' - era * 400;
          doy = (153 * (if m > 2 then m - 3 else m + 9) + 2) div 5 + d - 1;
          doe = yoe * 365 + yoe div 4 - yoe div 100 + doy
      in era * 146097 + doe - 719468)"

definition days_in_month :: "int \<Rightarrow> int \<Rightarrow> int" where
  "days_in_month y m =
     (if m = 2 then (if y mod 4 = 0 \<and> (y mod 100 \<noteq> 0 \<or> y mod 400 = 0) then 29 else 28)
      else if m = 4 \<or> m = 6 \<or> m = 9 \<or> m = 11 then 30 else 31)"

text \<open>The timestamp, in nanoseconds since the epoch, of a date and a time of day.\<close>

definition civil :: "int \<Rightarrow> int \<Rightarrow> int \<Rightarrow> int \<Rightarrow> int \<Rightarrow> int \<Rightarrow> int" where
  "civil y m d H M S = (((days_from_civil y m d * 24 + H) * 60 + M) * 60 + S) * 1000000000"

definition iso8601 :: "string \<Rightarrow> int option" where
  "iso8601 s =
     (if length s = 20 \<and> s ! 4 = CHR ''-'' \<and> s ! 7 = CHR ''-'' \<and> s ! 10 = CHR ''T''
         \<and> s ! 13 = CHR '':'' \<and> s ! 16 = CHR '':'' \<and> s ! 19 = CHR ''Z''
      then
        (case (number (take 4 s), number (take 2 (drop 5 s)), number (take 2 (drop 8 s)),
               number (take 2 (drop 11 s)), number (take 2 (drop 14 s)), number (take 2 (drop 17 s))) of
           (Some y, Some m, Some d, Some H, Some M, Some S) \<Rightarrow>
             if 1 \<le> m \<and> m \<le> 12 \<and> 1 \<le> d \<and> int d \<le> days_in_month (int y) (int m)
                \<and> H < 24 \<and> M < 60 \<and> S < 60
             then Some (civil (int y) (int m) (int d) (int H) (int M) (int S))
             else None
         | _ \<Rightarrow> None)
      else None)"

text \<open>A date with dashes, \<^verbatim>\<open>DD-MM-YYYY\<close> when \<open>dayfirst\<close> and \<^verbatim>\<open>MM-DD-YYYY\<close> otherwise.\<close>

definition dashed :: "string \<Rightarrow> bool" where
  "dashed s = (length s = 10 \<and> s ! 2 = CHR ''-'' \<and> s ! 5 = CHR ''-'')"

definition dashed_date :: "bool \<Rightarrow> string \<Rightarrow> int option" where
  "dashed_date dayfirst s =
     (if dashed s
      then
        (case (number (take 2 s), number (take 2 (drop 3 s)), number (drop 6 s)) of
           (Some a, Some b, Some y) \<Rightarrow>
             (let d = (if dayfirst then a else b); m = (if dayfirst then b else a)
              in if 1 \<le> m \<and> m \<le> 12 \<and> 1 \<le> d \<and> int d \<le> days_in_month (int y) (int m)
                 then Some (civil (int y) (int m) (int d) 0 0 0)
                 else None)
         | _ \<Rightarrow> None)
      else None)"

datatype format = Iso | DayFirst | MonthFirst

text \<open>The format pandas guesses from one string, as far as the examples go.\<close>

definition guess_datetime_format :: "string \<Rightarrow> format option" where
  "guess_datetime_format f =
     (if iso8601 f \<noteq> None then Some Iso
      else if dashed_date True f \<noteq> None \<and> dashed_date False f = None then Some DayFirst
      else if dashed_date False f \<noteq> None then Some MonthFirst
      else None)"

definition read_like :: "string \<Rightarrow> string \<Rightarrow> int option" where
  "read_like f s =
     (case guess_datetime_format f of
        None \<Rightarrow> None
      | Some Iso \<Rightarrow> iso8601 s
      | Some DayFirst \<Rightarrow> dashed_date True s
      | Some MonthFirst \<Rightarrow> dashed_date False s)"

definition nat_string :: "string \<Rightarrow> bool" where
  "nat_string s = (s = [] \<or> s = ''NaT'' \<or> s = ''nan'')"

definition decimal :: "string \<Rightarrow> real option" where
  "decimal s =
     (let neg = (s \<noteq> [] \<and> hd s = CHR ''-'');
          body = (if neg then tl s else s);
          ip = takeWhile (\<lambda>c. c \<noteq> CHR ''.'') body;
          rest = dropWhile (\<lambda>c. c \<noteq> CHR ''.'') body;
          sign = (if neg then - 1 else 1)
      in case number ip of
           None \<Rightarrow> None
         | Some n \<Rightarrow>
             if rest = [] then Some (sign * real n)
             else (case number (tl rest) of
                     None \<Rightarrow> None
                   | Some f \<Rightarrow> Some (sign * (real n + real f / 10 ^ length (tl rest)))))"

text \<open>A feed entry that carries both field keys.\<close>

definition feed_entry :: "string \<Rightarrow> raw \<Rightarrow> raw \<Rightarrow> entry" where
  "feed_entry t a b = \<lparr>raw_created_at = t, raw_field1 = Some a, raw_field2 = Some b\<rparr>"

section \<open>The feed entry by entry\<close>

text \<open>
  The string the format of the column is inferred from: the first \<^verbatim>\<open>created_at\<close> of the
  feed that stands for a value (any string when there is none; it is not used then).
\<close>

definition format_source :: "(string \<Rightarrow> bool) \<Rightarrow> entry list \<Rightarrow> string" where
  "format_source na feeds =
     (case first_non_null na (map raw_created_at feeds) of None \<Rightarrow> [] | Some f \<Rightarrow> f)"

text \<open>
  The Sample of the entry at position \<open>i\<close> of the feed: no timestamp when its
  \<^verbatim>\<open>created_at\<close> stands for no value, else its \<^verbatim>\<open>created_at\<close> read in the format inferred
  from \<open>f\<close> and shifted by the offset; its two fields coerced.
\<close>

definition sample :: "(string \<Rightarrow> bool) \<Rightarrow> (string \<Rightarrow> string \<Rightarrow> int option) \<Rightarrow> (string \<Rightarrow> real option) \<Rightarrow> string \<Rightarrow> nat \<Rightarrow> entry \<Rightarrow> row" where
  "sample na dt num f i e =
     \<lparr>label = i,
      created_at = (if na (raw_created_at e) then None else plus_offset (dt f (raw_created_at e))),
      field1 = to_numeric num (raw_field1 e),
      field2 = to_numeric num (raw_field2 e)\<rparr>"

text \<open>The frame before sorting, one row per position of the feed.\<close>

definition unsorted :: "(string \<Rightarrow> bool) \<Rightarrow> (string \<Rightarrow> string \<Rightarrow> int option) \<Rightarrow> (string \<Rightarrow> real option) \<Rightarrow> entry list \<Rightarrow> row list" where
  "unsorted na dt num feeds =
     map (\<lambda>i. sample na dt num (format_source na feeds) i (feeds ! i)) [0..<length feeds]"

text \<open>Every \<^verbatim>\<open>created_at\<close> of the feed stands for no value or fits the inferred format.\<close>

definition readable :: "(string \<Rightarrow> bool) \<Rightarrow> (string \<Rightarrow> string \<Rightarrow> int option) \<Rightarrow> entry list \<Rightarrow> bool" where
  "readable na dt feeds =
     list_all (\<lambda>e. na (raw_created_at e) \<or> dt (format_source na feeds) (raw_created_at e) \<noteq> None)
       feeds"

text \<open>A frame in which the row labelled \<open>i\<close> has lost one reading; every other row is kept.\<close>

definition blank1 :: "nat \<Rightarrow> row \<Rightarrow> row" where
  "blank1 i r = (if label r = i then r\<lparr>field1 := None\<rparr> else r)"

definition blank2 :: "nat \<Rightarrow> row \<Rightarrow> row" where
  "blank2 i r = (if label r = i then r\<lparr>field2 := None\<rparr> else r)"

text \<open>
  The whole days of a difference of timestamps by truncation towards zero, as the
  specification words \<^verbatim>\<open>elapsedDays\<close>; \<open>days\<close> above is what the program computes.
\<close>

definition whole_days_truncated :: "int \<Rightarrow> int" where
  "whole_days_truncated td = sgn td * (\<bar>td\<bar> div 86400000000000)"

section \<open>Example feeds\<close>

text \<open>
  Two entries a day apart, the second with a null \<^verbatim>\<open>field2\<close>, and the frame
  \<^verbatim>\<open>fetch_data\<close> makes of them.
\<close>

definition example_feed :: "entry list" where
  "example_feed =
     [feed_entry ''2024-01-01T00:00:00Z'' (RStr ''20.0'') (RStr ''21.0''),
      feed_entry ''2024-01-02T00:00:00Z'' (RStr ''22.5'') RNull]"

definition example_series :: "row list" where
  "example_series =
     [\<lparr>label = 0, created_at = Some (civil 2023 12 31 21 0 0), field1 = Some 20, field2 = Some 21\<rparr>,
      \<lparr>label = 1, created_at = Some (civil 2024 1 1 21 0 0), field1 = Some 22.5, field2 = None\<rparr>]"

text \<open>Three rows whose first column is 5, 9, 9 and whose second column is 9, 5, 5.\<close>

definition tie_series :: "row list" where
  "tie_series =
     [\<lparr>label = 0, created_at = Some 1, field1 = Some 5, field2 = Some 9\<rparr>,
      \<lparr>label = 1, created_at = Some 2, field1 = Some 9, field2 = Some 5\<rparr>,
      \<lparr>label = 2, created_at = Some 3, field1 = Some 9, field2 = Some 5\<rparr>]"

text \<open>Two entries whose \<^verbatim>\<open>field1\<close> is null, and their frame.\<close>

definition null_feed :: "entry list" where
  "null_feed =
     [feed_entry ''2024-01-01T00:00:00Z'' RNull (RStr ''21.0''),
      feed_entry ''2024-01-02T00:00:00Z'' RNull (RStr ''22.0'')]"

definition null_series :: "row list" where
  "null_series =
     [\<lparr>label = 0, created_at = Some (civil 2023 12 31 21 0 0), field1 = None, field2 = Some 21\<rparr>,
      \<lparr>label = 1, created_at = Some (civil 2024 1 1 21 0 0), field1 = None, field2 = Some 22\<rparr>]"

text \<open>A feed of one entry that has no \<^verbatim>\<open>field2\<close> key.\<close>

definition one_field_feed :: "entry list" where
  "one_field_feed =
     [\<lparr>raw_created_at = ''2024-01-01T00:00:00Z'', raw_field1 = Some (RStr ''20.0''),
       raw_field2 = None\<rparr>]"

text \<open>
  The example feed with an entry between the two whose \<^verbatim>\<open>created_at\<close> is the empty
  string, and the frame \<^verbatim>\<open>fetch_data\<close> makes of the three: the row without a timestamp
  is the last.
\<close>

definition unstamped_feed :: "entry list" where
  "unstamped_feed =
     [feed_entry ''2024-01-01T00:00:00Z'' (RStr ''20.0'') (RStr ''21.0''),
      feed_entry [] (RStr ''21.0'') (RStr ''21.5''),
      feed_entry ''2024-01-02T00:00:00Z'' (RStr ''22.5'') RNull]"

definition unstamped_series :: "row list" where
  "unstamped_series =
     [\<lparr>label = 0, created_at = Some (civil 2023 12 31 21 0 0), field1 = Some 20, field2 = Some 21\<rparr>,
      \<lparr>label = 2, created_at = Some (civil 2024 1 1 21 0 0), field1 = Some 22.5, field2 = None\<rparr>,
      \<lparr>label = 1, created_at = None, field1 = Some 21, field2 = Some 21.5\<rparr>]"

text \<open>
  Two feeds with the same second entry, stamped \<^verbatim>\<open>12-01-2000\<close>. After a first entry
  stamped \<^verbatim>\<open>13-01-2000\<close> the column is read day first; after one stamped \<^verbatim>\<open>01-13-2000\<close> it
  is read month first.
\<close>

definition dayfirst_feed :: "entry list" where
  "dayfirst_feed =
     [feed_entry ''13-01-2000'' (RStr ''20.0'') (RStr ''21.0''),
      feed_entry ''12-01-2000'' (RStr ''22.5'') RNull]"

definition monthfirst_feed :: "entry list" where
  "monthfirst_feed =
     [feed_entry ''01-13-2000'' (RStr ''20.0'') (RStr ''21.0''),
      feed_entry ''12-01-2000'' (RStr ''22.5'') RNull]"

text \<open>The frames of the two feeds.\<close>

definition dayfirst_series :: "row list" where
  "dayfirst_series =
     [\<lparr>label = 1, created_at = Some (civil 2000 1 11 21 0 0), field1 = Some 22.5, field2 = None\<rparr>,
      \<lparr>label = 0, created_at = Some (civil 2000 1 12 21 0 0), field1 = Some 20, field2 = Some 21\<rparr>]"

definition monthfirst_series :: "row list" where
  "monthfirst_series =
     [\<lparr>label = 0, created_at = Some (civil 2000 1 12 21 0 0), field1 = Some 20, field2 = Some 21\<rparr>,
      \<lparr>label = 1, created_at = Some (civil 2000 11 30 21 0 0), field1 = Some 22.5, field2 = None\<rparr>]"

section \<open>Facts about the model\<close>

subsection \<open>Sorting\<close>

lemma insort_key_map_commute:
  assumes "\<And>x. f (g x) = f x"
  shows "insort_key f (g x) (map g ys) = map g (insort_key f x ys)"
  by (induction ys) (simp_all add: assms)

lemma sort_key_map_commute:
  assumes "\<And>x. f (g x) = f x"
  shows "sort_key f (map g xs) = map g (sort_key f xs)"
  by (induction xs) (simp_all add: assms insort_key_map_commute)

lemma sort_values_map_commute:
  assumes "\<And>r. created_at (g r) = created_at r"
  shows "sort_values (map g df) = map g (sort_values df)"
proof -
  have "filter (\<lambda>r. created_at r \<noteq> None) (map g df) = map g (filter (\<lambda>r. created_at r \<noteq> None) df)"
    and "filter (\<lambda>r. created_at r = None) (map g df) = map g (filter (\<lambda>r. created_at r = None) df)"
    by (simp_all add: filter_map comp_def assms)
  moreover have "sort_key (\<lambda>r. the (created_at r)) (map g xs) = map g (sort_key (\<lambda>r. the (created_at r)) xs)"
    for xs
    by (rule sort_key_map_commute) (simp add: assms)
  ultimately show ?thesis
    by (simp add: sort_values_def)
qed

lemma mset_sort_values: "mset (sort_values df) = mset df"
proof -
  have "(\<lambda>r. created_at r = None) = (\<lambda>r. \<not> created_at r \<noteq> None)"
    by simp
  then show ?thesis
    by (simp add: sort_values_def del: not_not)
qed

lemma set_sort_values: "set (sort_values df) = set df"
  using mset_sort_values [of df] by (metis set_mset_mset)

lemma length_sort_values: "length (sort_values df) = length df"
  using mset_sort_values [of df] by (metis size_mset)

text \<open>The timestamps of a sorted frame: an ascending list, then NaT only.\<close>

lemma times_sort_values:
  "\<exists>ts k. map created_at (sort_values df) = map Some ts @ replicate k None \<and> sorted ts"
proof -
  let ?key = "\<lambda>r. the (created_at r)"
  let ?A = "sort_key ?key (filter (\<lambda>r. created_at r \<noteq> None) df)"
  let ?B = "filter (\<lambda>r. created_at r = None) df"
  have "map created_at ?A = map (\<lambda>r. Some (?key r)) ?A"
    by (rule map_cong) auto
  then have a: "map created_at ?A = map Some (map ?key ?A)"
    by (simp add: comp_def)
  have "map created_at ?B = map (\<lambda>r. None) ?B"
    by (rule map_cong) auto
  then have b: "map created_at ?B = replicate (length ?B) None"
    by (simp add: map_replicate_const)
  have "sorted (map ?key ?A)"
    by (rule sorted_sort_key)
  with a b show ?thesis
    unfolding sort_values_def by (metis map_append)
qed

subsection \<open>The frame row by row\<close>

lemma those_map_iff:
  "those (map g xs) =
     (if list_all (\<lambda>x. g x \<noteq> None) xs then Some (map (\<lambda>x. the (g x)) xs) else None)"
  by (induction xs) (auto split: option.splits)

lemma to_datetime_created_at:
  "to_datetime na dt (map raw_created_at feeds) =
     (if readable na dt feeds
      then Some (map (\<lambda>e. if na (raw_created_at e) then None
                          else dt (format_source na feeds) (raw_created_at e)) feeds)
      else None)"
proof (cases "first_non_null na (map raw_created_at feeds)")
  case None
  then have all: "\<forall>e\<in>set feeds. na (raw_created_at e)"
    by (auto simp: first_non_null_def find_None_iff)
  then have "readable na dt feeds"
    by (simp add: readable_def list_all_iff)
  moreover have "map (\<lambda>s. None) (map raw_created_at feeds)
      = map (\<lambda>e. if na (raw_created_at e) then None
                  else dt (format_source na feeds) (raw_created_at e)) feeds"
    using all by simp
  ultimately show ?thesis
    by (simp add: to_datetime_def None)
next
  case (Some f)
  then have f: "format_source na feeds = f"
    by (simp add: format_source_def)
  let ?g = "\<lambda>e. if na (raw_created_at e) then Some None
                else map_option Some (dt f (raw_created_at e))"
  have "to_datetime na dt (map raw_created_at feeds) = those (map ?g feeds)"
    by (simp add: to_datetime_def Some comp_def)
  then have td: "to_datetime na dt (map raw_created_at feeds) =
      (if list_all (\<lambda>e. ?g e \<noteq> None) feeds then Some (map (\<lambda>e. the (?g e)) feeds) else None)"
    by (simp only: those_map_iff)
  have r: "list_all (\<lambda>e. ?g e \<noteq> None) feeds = readable na dt feeds"
    by (auto simp: readable_def f list_all_iff)
  show ?thesis
  proof (cases "readable na dt feeds")
    case True
    then have "map (\<lambda>e. the (?g e)) feeds
        = map (\<lambda>e. if na (raw_created_at e) then None else dt f (raw_created_at e)) feeds"
      by (intro map_cong) (auto simp: readable_def f list_all_iff)
    with td r True show ?thesis
      by (simp add: f)
  next
    case False
    with td r show ?thesis
      by simp
  qed
qed

lemma rows_of_columns:
  "rows [0..<length es] (map a es) (map b es) (map c es) =
     map (\<lambda>i. \<lparr>label = i, created_at = a (es ! i), field1 = b (es ! i), field2 = c (es ! i)\<rparr>)
       [0..<length es]"
  by (rule nth_equalityI) (simp_all add: rows_def)

lemma build_Inr_iff:
  "build na dt num feeds = Inr df \<longleftrightarrow>
     feeds \<noteq> [] \<and> readable na dt feeds
     \<and> has_column raw_field1 feeds \<and> has_column raw_field2 feeds
     \<and> df = sort_values (unsorted na dt num feeds)"
proof (cases "readable na dt feeds")
  case True
  have "rows [0..<length feeds]
      (map plus_offset (map (\<lambda>e. if na (raw_created_at e) then None
                          else dt (format_source na feeds) (raw_created_at e)) feeds))
      (map (\<lambda>e. to_numeric num (raw_field1 e)) feeds)
      (map (\<lambda>e. to_numeric num (raw_field2 e)) feeds) = unsorted na dt num feeds"
    using rows_of_columns [of feeds
        "\<lambda>e. plus_offset (if na (raw_created_at e) then None
                          else dt (format_source na feeds) (raw_created_at e))"
        "\<lambda>e. to_numeric num (raw_field1 e)" "\<lambda>e. to_numeric num (raw_field2 e)"]
    by (simp add: unsorted_def sample_def comp_def plus_offset_def if_distrib cong: if_cong)
  with True show ?thesis
    by (auto simp: build_def to_datetime_created_at)
next
  case False
  then show ?thesis
    by (simp add: build_def to_datetime_created_at)
qed

lemma length_unsorted: "length (unsorted na dt num feeds) = length feeds"
  by (simp add: unsorted_def)

lemma unsorted_enumerate:
  "unsorted na dt num feeds =
     map (\<lambda>(i, e). sample na dt num (format_source na feeds) i e) (enumerate 0 feeds)"
  by (rule nth_equalityI) (simp_all add: unsorted_def nth_enumerate_eq)

lemma fetch_data_success:
  "fetch_data na dt num r = (df, None) \<longleftrightarrow>
     (\<exists>status feeds. r = Response status (Object (Some feeds)) \<and> \<not> raise_for_status status
        \<and> build na dt num feeds = Inr df)"
  by (auto simp: fetch_data_def try_body_def
      split: sum.splits http.splits payload.splits option.splits if_splits)

lemma fetch_data_frame:
  "fst (fetch_data na dt num r) = [] \<or> (\<exists>feeds. build na dt num feeds = Inr (fst (fetch_data na dt num r)))"
  by (auto simp: fetch_data_def try_body_def
      split: sum.splits http.splits payload.splits option.splits if_splits)

text \<open>A status that \<^verbatim>\<open>raise_for_status\<close> lets pass is of no further account.\<close>

lemma other_status_like_200:
  "\<not> (400 \<le> status \<and> status < 600) \<Longrightarrow>
   fetch_data na dt num (Response status body) = fetch_data na dt num (Response 200 body)"
  by (auto simp: fetch_data_def try_body_def raise_for_status_def)

text \<open>A feed in which no entry carries a field key has no such column.\<close>

lemma absent_column_raises:
  assumes "feeds \<noteq> []" and "readable na dt feeds"
  shows "\<not> has_column raw_field1 feeds \<Longrightarrow> build na dt num feeds = Inl (KeyError ''field1'')"
    and "has_column raw_field1 feeds \<Longrightarrow> \<not> has_column raw_field2 feeds \<Longrightarrow>
      build na dt num feeds = Inl (KeyError ''field2'')"
  using assms by (simp_all add: build_def to_datetime_created_at)

text \<open>The labels of a frame are the positions of the feed, each once.\<close>

lemma build_distinct_labels:
  assumes "build na dt num feeds = Inr df"
  shows "distinct (map label df)"
proof -
  from assms have "df = sort_values (unsorted na dt num feeds)"
    by (simp add: build_Inr_iff)
  then have "mset (map label df) = mset (map label (unsorted na dt num feeds))"
    by (simp add: mset_sort_values)
  also have "map label (unsorted na dt num feeds) = [0..<length feeds]"
    by (simp add: unsorted_def sample_def comp_def)
  finally show ?thesis
    by (metis distinct_upt mset_eq_imp_distinct_iff)
qed

subsection \<open>Blanking a reading\<close>

lemma sort_values_blank1: "sort_values (map (blank1 i) df) = map (blank1 i) (sort_values df)"
  by (rule sort_values_map_commute) (simp add: blank1_def)

lemma sort_values_blank2: "sort_values (map (blank2 i) df) = map (blank2 i) (sort_values df)"
  by (rule sort_values_map_commute) (simp add: blank2_def)

lemma created_at_update:
  assumes "i < length feeds" and "raw_created_at e' = raw_created_at (feeds ! i)"
  shows "map raw_created_at (feeds[i := e']) = map raw_created_at feeds"
  using assms by (intro nth_equalityI) (auto simp: nth_list_update)

lemma format_source_update:
  assumes "i < length feeds" and "raw_created_at e' = raw_created_at (feeds ! i)"
  shows "format_source na (feeds[i := e']) = format_source na feeds"
  by (simp add: format_source_def created_at_update [OF assms])

lemma readable_update:
  assumes "readable na dt feeds" and "i < length feeds"
    and "raw_created_at e' = raw_created_at (feeds ! i)"
  shows "readable na dt (feeds[i := e'])"
  using assms
  by (auto simp: readable_def format_source_update list_all_length nth_list_update)

lemma unsorted_blank1:
  assumes "i < length feeds" and "to_numeric num v = None"
  shows "unsorted na dt num (feeds[i := (feeds ! i)\<lparr>raw_field1 := v\<rparr>])
    = map (blank1 i) (unsorted na dt num feeds)"
  using assms
  by (intro nth_equalityI)
    (auto simp: unsorted_def sample_def blank1_def nth_list_update format_source_update)

lemma unsorted_blank2:
  assumes "i < length feeds" and "to_numeric num v = None"
  shows "unsorted na dt num (feeds[i := (feeds ! i)\<lparr>raw_field2 := v\<rparr>])
    = map (blank2 i) (unsorted na dt num feeds)"
  using assms
  by (intro nth_equalityI)
    (auto simp: unsorted_def sample_def blank2_def nth_list_update format_source_update)

lemma has_column_update:
  assumes "i < length feeds"
  shows "has_column c (feeds[i := e']) \<longleftrightarrow>
    c e' \<noteq> None \<or> (\<exists>j<length feeds. j \<noteq> i \<and> c (feeds ! j) \<noteq> None)"
proof -
  have "has_column c (feeds[i := e']) \<longleftrightarrow> (\<exists>j<length feeds. c (feeds[i := e'] ! j) \<noteq> None)"
    by (simp add: has_column_def list_ex_length)
  also have "\<dots> \<longleftrightarrow> c e' \<noteq> None \<or> (\<exists>j<length feeds. j \<noteq> i \<and> c (feeds ! j) \<noteq> None)"
    using assms by (metis nth_list_update_eq nth_list_update_neq)
  finally show ?thesis .
qed

lemma has_column_update_other:
  assumes "has_column c feeds" and "c e' = c (feeds ! i)" and "i < length feeds"
  shows "has_column c (feeds[i := e'])"
proof -
  from assms(1) obtain j where j: "j < length feeds" "c (feeds ! j) \<noteq> None"
    by (auto simp: has_column_def list_ex_length)
  then have "j < length (feeds[i := e'])" "c (feeds[i := e'] ! j) \<noteq> None"
    using assms(2,3) by (auto simp: nth_list_update)
  then show ?thesis unfolding has_column_def list_ex_length by blast
qed

lemma blank_update:
  assumes "build na dt num feeds = Inr df" and "i < length feeds" and "to_numeric num v = None"
  shows "(has_column raw_field1 (feeds[i := (feeds ! i)\<lparr>raw_field1 := v\<rparr>]) \<longrightarrow>
            build na dt num (feeds[i := (feeds ! i)\<lparr>raw_field1 := v\<rparr>]) = Inr (map (blank1 i) df))
       \<and> (has_column raw_field2 (feeds[i := (feeds ! i)\<lparr>raw_field2 := v\<rparr>]) \<longrightarrow>
            build na dt num (feeds[i := (feeds ! i)\<lparr>raw_field2 := v\<rparr>]) = Inr (map (blank2 i) df))"
proof -
  from assms(1) have ne: "feeds \<noteq> []"
    and ok: "readable na dt feeds"
    and c1: "has_column raw_field1 feeds" and c2: "has_column raw_field2 feeds"
    and df: "df = sort_values (unsorted na dt num feeds)"
    by (simp_all add: build_Inr_iff)
  let ?f1 = "feeds[i := (feeds ! i)\<lparr>raw_field1 := v\<rparr>]"
  let ?f2 = "feeds[i := (feeds ! i)\<lparr>raw_field2 := v\<rparr>]"
  have "build na dt num ?f1 = Inr (map (blank1 i) df)" if "has_column raw_field1 ?f1"
  proof -
    have "?f1 \<noteq> []" using ne by simp
    moreover have "readable na dt ?f1"
      using ok assms(2) by (intro readable_update) simp_all
    moreover have "has_column raw_field2 ?f1"
      using c2 assms(2) by (intro has_column_update_other) simp_all
    moreover have "sort_values (unsorted na dt num ?f1) = map (blank1 i) df"
      using assms(2,3) by (simp add: unsorted_blank1 sort_values_blank1 df)
    ultimately show ?thesis using that by (simp add: build_Inr_iff)
  qed
  moreover have "build na dt num ?f2 = Inr (map (blank2 i) df)" if "has_column raw_field2 ?f2"
  proof -
    have "?f2 \<noteq> []" using ne by simp
    moreover have "readable na dt ?f2"
      using ok assms(2) by (intro readable_update) simp_all
    moreover have "has_column raw_field1 ?f2"
      using c1 assms(2) by (intro has_column_update_other) simp_all
    moreover have "sort_values (unsorted na dt num ?f2) = map (blank2 i) df"
      using assms(2,3) by (simp add: unsorted_blank2 sort_values_blank2 df)
    ultimately show ?thesis using that by (simp add: build_Inr_iff)
  qed
  ultimately show ?thesis by blast
qed

subsection \<open>The scan of idxmax and idxmin\<close>

text \<open>
  Where the scan ends. \<open>better\<close> is a strict order whose complement is transitive, as
  \<open>>\<close> and \<open><\<close> on the reals are. The scan returns a pair that nothing in the list is
  better than, and it is either the pair it started from or the first entry of the list
  that beats all entries before it and the starting pair.
\<close>

lemma first_later:
  assumes "i < length xs" and "xs ! i = p"
    and "\<forall>j<i. \<forall>w. snd (xs ! j) = Some w \<longrightarrow> P w"
    and "\<forall>w. snd x = Some w \<longrightarrow> P w"
  shows "\<exists>i<length (x # xs). (x # xs) ! i = p
           \<and> (\<forall>j<i. \<forall>w. snd ((x # xs) ! j) = Some w \<longrightarrow> P w)"
  using assms by (intro exI [of _ "Suc i"]) (auto simp: less_Suc_eq_0_disj)

lemma first_here:
  "\<exists>i<length (x # xs). (x # xs) ! i = x
           \<and> (\<forall>j<i. \<forall>w. snd ((x # xs) ! j) = Some w \<longrightarrow> P w)"
  by (intro exI [of _ 0]) simp

lemma argbest_first:
  assumes asym: "\<And>a b. better a b \<Longrightarrow> \<not> better b a"
    and trans: "\<And>a b c. better a b \<Longrightarrow> better b c \<Longrightarrow> better a c"
    and ntrans: "\<And>a b c. \<not> better a b \<Longrightarrow> \<not> better b c \<Longrightarrow> \<not> better a c"
  shows "argbest better best xs = Some (k', m') \<Longrightarrow>
     (\<forall>l w. (l, Some w) \<in> set xs \<longrightarrow> \<not> better w m')
     \<and> (\<forall>k m. best = Some (k, m) \<longrightarrow> \<not> better m m')
     \<and> (best = Some (k', m')
        \<or> (\<exists>i<length xs. xs ! i = (k', Some m')
              \<and> (\<forall>j<i. \<forall>w. snd (xs ! j) = Some w \<longrightarrow> better m' w))
           \<and> (\<forall>k m. best = Some (k, m) \<longrightarrow> better m' m))"
proof (induction xs arbitrary: best)
  case Nil
  then have "best = Some (k', m')" by simp
  moreover have "\<not> better m' m'" using asym by blast
  ultimately show ?case by simp
next
  case (Cons x xs)
  obtain l c where x: "x = (l, c)" by (cases x)
  let ?found = "\<lambda>ys. \<exists>i<length ys. ys ! i = (k', Some m')
              \<and> (\<forall>j<i. \<forall>w. snd (ys ! j) = Some w \<longrightarrow> better m' w)"
  show ?case
  proof (cases c)
    case None
    from Cons.prems have "argbest better best xs = Some (k', m')"
      by (simp add: x None)
    from Cons.IH [OF this]
    have all: "\<forall>l w. (l, Some w) \<in> set xs \<longrightarrow> \<not> better w m'"
      and start: "\<forall>k m. best = Some (k, m) \<longrightarrow> \<not> better m m'"
      and pos: "best = Some (k', m') \<or> ?found xs \<and> (\<forall>k m. best = Some (k, m) \<longrightarrow> better m' m)"
      by blast+
    have "?found (x # xs)" if "?found xs"
    proof -
      from that obtain i where "i < length xs" "xs ! i = (k', Some m')"
        "\<forall>j<i. \<forall>w. snd (xs ! j) = Some w \<longrightarrow> better m' w"
        by blast
      then show ?thesis
        by (rule first_later) (simp add: x None)
    qed
    with all start pos show ?thesis
      by (auto simp: x None)
  next
    case (Some v)
    note c = Some
    have step: "\<exists>b. argbest better b xs = Some (k', m')
        \<and> (b = Some (l, v) \<and> (\<forall>k m. best = Some (k, m) \<longrightarrow> better v m)
           \<or> b = best \<and> (\<exists>k m. best = Some (k, m) \<and> \<not> better v m))"
      using Cons.prems by (cases best) (auto simp: x c split: if_splits)
    then obtain b where run: "argbest better b xs = Some (k', m')"
      and b: "b = Some (l, v) \<and> (\<forall>k m. best = Some (k, m) \<longrightarrow> better v m)
           \<or> b = best \<and> (\<exists>k m. best = Some (k, m) \<and> \<not> better v m)"
      by blast
    from Cons.IH [OF run]
    have all: "\<forall>l w. (l, Some w) \<in> set xs \<longrightarrow> \<not> better w m'"
      and start: "\<forall>k m. b = Some (k, m) \<longrightarrow> \<not> better m m'"
      and pos: "b = Some (k', m') \<or> ?found xs \<and> (\<forall>k m. b = Some (k, m) \<longrightarrow> better m' m)"
      by blast+
    from b show ?thesis
    proof
      assume new: "b = Some (l, v) \<and> (\<forall>k m. best = Some (k, m) \<longrightarrow> better v m)"
      then have nv: "\<not> better v m'" using start by simp
      have found: "?found (x # xs)"
      proof (cases "b = Some (k', m')")
        case True
        with new have "x = (k', Some m')" by (simp add: x c)
        then show ?thesis using first_here [of x xs] by simp
      next
        case False
        with pos new obtain i where "i < length xs" "xs ! i = (k', Some m')"
          "\<forall>j<i. \<forall>w. snd (xs ! j) = Some w \<longrightarrow> better m' w" and "better m' v"
          by blast
        then show ?thesis
          by (intro first_later) (simp_all add: x c)
      qed
      have beats: "better m' m" if "best = Some (k, m)" for k m
      proof -
        from new that have vm: "better v m" by blast
        show ?thesis
        proof (cases "b = Some (k', m')")
          case True
          with new vm show ?thesis by simp
        next
          case False
          with pos new have "better m' v" by blast
          then show ?thesis using vm by (rule trans)
        qed
      qed
      then have "\<not> better m m'" if "best = Some (k, m)" for k m
        using that asym by blast
      with all nv found beats show ?thesis
        by (auto simp: x c)
    next
      assume old: "b = best \<and> (\<exists>k m. best = Some (k, m) \<and> \<not> better v m)"
      then obtain k m where best: "best = Some (k, m)" and vm: "\<not> better v m"
        by blast
      from start old best have mm: "\<not> better m m'" by simp
      from vm mm have nv: "\<not> better v m'" by (rule ntrans)
      show ?thesis
      proof (cases "best = Some (k', m')")
        case True
        with all start old nv show ?thesis
          by (auto simp: x c)
      next
        case False
        with pos old best obtain i where i: "i < length xs" "xs ! i = (k', Some m')"
          "\<forall>j<i. \<forall>w. snd (xs ! j) = Some w \<longrightarrow> better m' w" and bm: "better m' m"
          by blast
        have "better m' v"
          using bm vm ntrans by blast
        with i have "?found (x # xs)"
          by (intro first_later) (simp_all add: x c)
        with all start old nv best bm show ?thesis
          by (auto simp: x c)
      qed
    qed
  qed
qed

lemma argbest_None_iff:
  "argbest better best xs = None \<longleftrightarrow> best = None \<and> list_all (\<lambda>x. snd x = None) xs"
  by (induction better best xs rule: argbest.induct) auto

subsection \<open>Maximum and minimum of a column\<close>

lemma set_dropna: "set (dropna xs) = {v. Some v \<in> set xs}"
  by (induction xs) (auto simp: dropna_def split: option.splits)

lemma series_max_eqI:
  assumes "Some v \<in> set xs" and "\<And>u. Some u \<in> set xs \<Longrightarrow> u \<le> v"
  shows "series_max xs = Some v"
proof -
  have mem: "v \<in> set (dropna xs)" by (simp add: set_dropna assms(1))
  have le: "\<And>u. u \<in> set (dropna xs) \<Longrightarrow> u \<le> v" by (simp add: set_dropna assms(2))
  have mx: "Max (set (dropna xs)) = v"
    by (rule Max_eqI) (simp_all add: le mem)
  show ?thesis
  proof (cases "dropna xs")
    case Nil
    with mem show ?thesis by simp
  next
    case (Cons a as)
    have "fold max as a = Max (set (a # as))"
      by (simp only: Max.set_eq_fold)
    with mx show ?thesis by (simp add: series_max_def Cons)
  qed
qed

lemma series_min_eqI:
  assumes "Some v \<in> set xs" and "\<And>u. Some u \<in> set xs \<Longrightarrow> v \<le> u"
  shows "series_min xs = Some v"
proof -
  have mem: "v \<in> set (dropna xs)" by (simp add: set_dropna assms(1))
  have le: "\<And>u. u \<in> set (dropna xs) \<Longrightarrow> v \<le> u" by (simp add: set_dropna assms(2))
  have mn: "Min (set (dropna xs)) = v"
    by (rule Min_eqI) (simp_all add: le mem)
  show ?thesis
  proof (cases "dropna xs")
    case Nil
    with mem show ?thesis by simp
  next
    case (Cons a as)
    have "fold min as a = Min (set (a # as))"
      by (simp only: Min.set_eq_fold)
    with mn show ?thesis by (simp add: series_min_def Cons)
  qed
qed

subsection \<open>Looking a row up by its label\<close>

lemma filter_label_nth:
  assumes "distinct (map label df)" and "i < length df"
  shows "filter (\<lambda>r. label r = label (df ! i)) df = [df ! i]"
  using assms
proof (induction df arbitrary: i)
  case Nil
  then show ?case by simp
next
  case (Cons r df)
  show ?case
  proof (cases i)
    case 0
    have "label r \<notin> label ` set df"
      using Cons.prems(1) by simp
    then have "\<forall>x\<in>set df. label x \<noteq> label r"
      by (metis imageI)
    then have "filter (\<lambda>x. label x = label r) df = []"
      by (simp add: filter_empty_conv)
    then show ?thesis by (simp add: 0)
  next
    case (Suc j)
    then have j: "j < length df" using Cons.prems(2) by simp
    have "label r \<notin> label ` set df"
      using Cons.prems(1) by simp
    with j have "label r \<noteq> label (df ! j)"
      using nth_mem [of j df] by (metis imageI)
    then show ?thesis
      using Cons.IH [of j] Cons.prems(1) j by (simp add: Suc)
  qed
qed

lemma loc_nth:
  assumes "distinct (map label df)" and "i < length df"
  shows "loc df (Some (label (df ! i))) = Inr (created_at (df ! i))"
  by (simp add: loc_def filter_label_nth [OF assms])

lemma argbest_labelled:
  assumes asym: "\<And>a b. better a b \<Longrightarrow> \<not> better b a"
    and trans: "\<And>a b c. better a b \<Longrightarrow> better b c \<Longrightarrow> better a c"
    and ntrans: "\<And>a b c. \<not> better a b \<Longrightarrow> \<not> better b c \<Longrightarrow> \<not> better a c"
    and some: "list_ex (\<lambda>r. f r \<noteq> None) df"
  shows "\<exists>i v. i < length df
     \<and> map_option fst (argbest better None (map (\<lambda>r. (label r, f r)) df)) = Some (label (df ! i))
     \<and> f (df ! i) = Some v
     \<and> (\<forall>j<length df. \<forall>u. f (df ! j) = Some u \<longrightarrow> \<not> better u v)
     \<and> (\<forall>j<i. \<forall>u. f (df ! j) = Some u \<longrightarrow> better v u)"
proof -
  let ?xs = "map (\<lambda>r. (label r, f r)) df"
  have "argbest better None ?xs \<noteq> None"
    using some by (auto simp: argbest_None_iff list_ex_iff list_all_iff)
  then obtain k' m' where res: "argbest better None ?xs = Some (k', m')"
    by (cases "argbest better None ?xs") auto
  have "(\<forall>l w. (l, Some w) \<in> set ?xs \<longrightarrow> \<not> better w m')
     \<and> (\<forall>k m. (None :: (nat \<times> real) option) = Some (k, m) \<longrightarrow> \<not> better m m')
     \<and> (None = Some (k', m')
        \<or> (\<exists>i<length ?xs. ?xs ! i = (k', Some m')
              \<and> (\<forall>j<i. \<forall>w. snd (?xs ! j) = Some w \<longrightarrow> better m' w))
           \<and> (\<forall>k m. (None :: (nat \<times> real) option) = Some (k, m) \<longrightarrow> better m' m))"
  proof (rule argbest_first [where better = better, OF _ _ _ res])
    show "\<And>a b. better a b \<Longrightarrow> \<not> better b a" by (rule asym)
    show "\<And>a b c. better a b \<Longrightarrow> better b c \<Longrightarrow> better a c" by (rule trans)
    show "\<And>a b c. \<not> better a b \<Longrightarrow> \<not> better b c \<Longrightarrow> \<not> better a c" by (rule ntrans)
  qed
  then have all: "\<forall>l w. (l, Some w) \<in> set ?xs \<longrightarrow> \<not> better w m'"
    and "\<exists>i<length ?xs. ?xs ! i = (k', Some m')
              \<and> (\<forall>j<i. \<forall>w. snd (?xs ! j) = Some w \<longrightarrow> better m' w)"
    by simp_all
  then obtain i where i: "i < length df" "?xs ! i = (k', Some m')"
    and before: "\<forall>j<i. \<forall>w. snd (?xs ! j) = Some w \<longrightarrow> better m' w"
    by auto
  from i have li: "label (df ! i) = k'" and fi: "f (df ! i) = Some m'" by simp_all
  have "\<not> better u m'" if "j < length df" "f (df ! j) = Some u" for j u
  proof -
    have "(label (df ! j), Some u) \<in> set ?xs"
      using that by (metis (mono_tags, lifting) image_eqI nth_mem set_map)
    with all show ?thesis by blast
  qed
  moreover have "better m' u" if "j < i" "f (df ! j) = Some u" for j u
    using before that i(1) by simp
  ultimately show ?thesis
    using i(1) li fi res by (intro exI [of _ i] exI [of _ m']) simp
qed

subsection \<open>Running the examples\<close>

lemmas parse_defs = iso8601_def number_def digit_def days_in_month_def decimal_def
  dashed_def dashed_date_def guess_datetime_format_def read_like_def nat_string_def

lemmas time_defs = civil_def days_from_civil_def TZ_OFFSET_def

lemmas build_defs = build_def to_datetime_def first_non_null_def plus_offset_def has_column_def
  rows_def sort_values_def to_numeric_def feed_entry_def

lemmas fetch_defs = fetch_data_def try_body_def raise_for_status_def handler_def

lemmas home_defs = home_def metric_def current_temp_def iloc_def minus_nan_def data_range_def
  strftime_def days_def extremes_def loc_def idxmax_def idxmin_def series_max_def series_min_def
  dropna_def

lemma build_example: "build nat_string read_like decimal example_feed = Inr example_series"
  by (simp add: example_feed_def example_series_def build_defs parse_defs time_defs)

lemma build_example_rev:
  "build nat_string read_like decimal (rev example_feed) =
     Inr [(example_series ! 0)\<lparr>label := 1\<rparr>, (example_series ! 1)\<lparr>label := 0\<rparr>]"
  by (simp add: example_feed_def example_series_def build_defs parse_defs time_defs)

lemma build_unstamped: "build nat_string read_like decimal unstamped_feed = Inr unstamped_series"
  by (simp add: unstamped_feed_def unstamped_series_def build_defs parse_defs time_defs)

lemma build_dayfirst: "build nat_string read_like decimal dayfirst_feed = Inr dayfirst_series"
  by (simp add: dayfirst_feed_def dayfirst_series_def build_defs parse_defs time_defs)

lemma build_monthfirst: "build nat_string read_like decimal monthfirst_feed = Inr monthfirst_series"
  by (simp add: monthfirst_feed_def monthfirst_series_def build_defs parse_defs time_defs)

lemma fetch_example:
  "fetch_data nat_string read_like decimal (Response 200 (Object (Some example_feed)))
     = (example_series, None)"
  by (simp add: fetch_defs build_example)

text \<open>The Home page of the example frame.\<close>

lemma home_example:
  "home example_series = Inr (Dashboard
     \<lparr>current_temp1 = Some 22.5, delta1 = Some 2.5, current_temp2 = None, delta2 = None,
      first_timestamp = civil 2023 12 31 21 0 0, last_timestamp = civil 2024 1 1 21 0 0,
      days_passed = 1,
      max_temp1 = Some 22.5, min_temp1 = Some 20,
      max_temp1_time = civil 2024 1 1 21 0 0, min_temp1_time = civil 2023 12 31 21 0 0,
      max_temp2 = Some 21, min_temp2 = Some 21,
      max_temp2_time = civil 2023 12 31 21 0 0, min_temp2_time = civil 2023 12 31 21 0 0\<rparr>)"
  by (simp add: example_series_def home_defs time_defs)

subsection \<open>Positions, metrics and the date range\<close>

lemma iloc_first: "xs \<noteq> [] \<Longrightarrow> iloc xs 0 = Inr (hd xs)"
  by (cases xs) (simp_all add: iloc_def)

lemma iloc_last: "xs \<noteq> [] \<Longrightarrow> iloc xs (- 1) = Inr (last xs)"
proof -
  assume ne: "xs \<noteq> []"
  then have "nat (int (length xs) + - 1) = length xs - 1"
    by (cases xs) simp_all
  with ne show ?thesis
    by (simp add: iloc_def last_conv_nth Suc_le_eq)
qed

lemma iloc_before_last:
  "iloc xs (- 2) = (if 2 \<le> length xs then Inr (xs ! (length xs - 2)) else Inl IndexError)"
proof (cases "2 \<le> length xs")
  case True
  then have "nat (int (length xs) + - 2) = length xs - 2" by simp
  with True show ?thesis by (simp add: iloc_def)
next
  case False
  then show ?thesis by (simp add: iloc_def)
qed

lemma current_temp_last: "df \<noteq> [] \<Longrightarrow> current_temp f df = Inr (f (last df))"
  by (simp add: current_temp_def iloc_last last_map)

lemma metric_eq:
  "df \<noteq> [] \<Longrightarrow> metric f df =
     (if 2 \<le> length df
      then Inr (f (last df), minus_nan (f (last df)) (f (df ! (length df - 2))))
      else Inl IndexError)"
  by (simp add: metric_def current_temp_last iloc_before_last)

lemma data_range_eq:
  "df \<noteq> [] \<Longrightarrow> data_range df =
     (case created_at (hd df) of
        None \<Rightarrow> Inl ValueError
      | Some t0 \<Rightarrow>
          (case created_at (last df) of
             None \<Rightarrow> Inl ValueError
           | Some t1 \<Rightarrow> Inr (t0, t1, days (t1 - t0))))"
  by (simp add: data_range_def iloc_first iloc_last hd_map last_map strftime_def
      split: option.splits)

lemma extremes_all_null:
  assumes "list_all (\<lambda>r. f r = None) df"
  shows "extremes f df = Inl (KeyError ''nan'')"
proof -
  have "argbest (\<lambda>v m. m < v) None (map (\<lambda>r. (label r, f r)) df) = None"
    using assms by (simp add: argbest_None_iff list_all_iff)
  then show ?thesis by (simp add: extremes_def idxmax_def loc_def)
qed

lemma strftime_Inr: "strftime t = Inr x \<longleftrightarrow> t = Some x"
  by (simp add: strftime_def split: option.splits)

lemma home_Dashboard:
  assumes "home df = Inr (Dashboard s)"
  shows "df \<noteq> [] \<and> metric field1 df = Inr (current_temp1 s, delta1 s)
    \<and> metric field2 df = Inr (current_temp2 s, delta2 s)
    \<and> data_range df = Inr (first_timestamp s, last_timestamp s, days_passed s)
    \<and> extremes field1 df
        = Inr (max_temp1 s, min_temp1 s, Some (max_temp1_time s), Some (min_temp1_time s))
    \<and> extremes field2 df
        = Inr (max_temp2 s, min_temp2 s, Some (max_temp2_time s), Some (min_temp2_time s))"
  using assms
  by (auto simp: home_def strftime_Inr split: if_splits sum.splits prod.splits)

lemma sorted_hd_last:
  assumes "sorted xs" and "xs \<noteq> []"
  shows "hd xs \<le> (last xs :: int)"
  using assms by (metis hd_conv_nth last_conv_nth sorted_iff_nth_mono le0 diff_less length_greater_0_conv zero_less_one)

section \<open>The claims\<close>

text \<open>
  C1, as the program has it. \<^verbatim>\<open>fetch_data\<close> returns for every outcome of the request. A
  request that fails, or a response whose status is between 400 and 599, gives the empty
  frame and the message that begins \<^verbatim>\<open>Error fetching data from ThingSpeak\<close>; a response of
  another status whose JSON object has no \<^verbatim>\<open>feeds\<close> member gives the empty frame and the
  message that begins \<^verbatim>\<open>Error processing ThingSpeak data\<close>; and whenever a message is shown
  the frame is empty. The statuses are those of \<^verbatim>\<open>raise_for_status\<close>, not every status
  outside 200 to 299.
\<close>

theorem fetch_data_failures:
  "fetch_data na dt num RequestFailed
      = ([], Some (''Error fetching data from ThingSpeak'', RequestException))
   \<and> (400 \<le> status \<and> status < 600 \<longrightarrow>
        fetch_data na dt num (Response status body)
          = ([], Some (''Error fetching data from ThingSpeak'', RequestException)))
   \<and> (\<not> (400 \<le> status \<and> status < 600) \<longrightarrow>
        fetch_data na dt num (Response status (Object None))
          = ([], Some (''Error processing ThingSpeak data'', KeyError ''feeds'')))
   \<and> (snd (fetch_data na dt num r) = None \<or> fst (fetch_data na dt num r) = [])"
  by (simp add: fetch_defs split: sum.splits)

text \<open>The theorem at a status 500 response, at a status 200 response without feeds and at a
  failed request; the two messages differ.\<close>

theorem fetch_data_failures_witness:
  "fetch_data nat_string read_like decimal RequestFailed
      = ([], Some (''Error fetching data from ThingSpeak'', RequestException))
   \<and> fetch_data nat_string read_like decimal (Response 500 (Object (Some example_feed)))
      = ([], Some (''Error fetching data from ThingSpeak'', RequestException))
   \<and> fetch_data nat_string read_like decimal (Response 200 (Object None))
      = ([], Some (''Error processing ThingSpeak data'', KeyError ''feeds''))
   \<and> ''Error fetching data from ThingSpeak'' \<noteq> ''Error processing ThingSpeak data''"
  using fetch_data_failures [of nat_string read_like decimal 500 "Object (Some example_feed)" RequestFailed]
    fetch_data_failures [of nat_string read_like decimal 200 NonObject RequestFailed]
  by simp

text \<open>
  A response with status 300 is outside 200 to 299 and yet is read like any other: with the
  example feed as its body, \<^verbatim>\<open>fetch_data\<close> returns the two rows and shows no message.
\<close>

theorem other_status_counterexample:
  "\<not> (200 \<le> (300::nat) \<and> (300::nat) < 300)
   \<and> fetch_data nat_string read_like decimal (Response 300 (Object (Some example_feed)))
       = (example_series, None)
   \<and> example_series \<noteq> []"
  by (simp add: fetch_defs build_example) (simp add: example_series_def)

text \<open>
  C2, as the program has it. In every frame \<^verbatim>\<open>fetch_data\<close> returns, the rows that have a
  timestamp come first, in ascending order of it whatever the order of the feed, so that
  each of them is \<^verbatim>\<open><=\<close> the one after it; the rows without a timestamp (NaT, from a
  \<^verbatim>\<open>created_at\<close> that stands for no value) come after them, and there \<^verbatim>\<open><=\<close> does not
  hold.
\<close>

theorem fetch_data_sorted:
  assumes "fetch_data na dt num r = (df, shown)"
  shows "\<exists>ts k. map created_at df = map Some ts @ replicate k None \<and> sorted ts
    \<and> (\<forall>i. Suc i < length ts \<longrightarrow> le_time (created_at (df ! i)) (created_at (df ! Suc i)))"
proof -
  have "\<exists>ts k. map created_at df = map Some ts @ replicate k None \<and> sorted ts"
  proof (cases "df = []")
    case True
    then have "map created_at df = map Some [] @ replicate 0 None \<and> sorted ([] :: int list)"
      by simp
    then show ?thesis by blast
  next
    case False
    with fetch_data_frame [of na dt num r] assms obtain feeds
      where "build na dt num feeds = Inr df"
      by auto
    then have "df = sort_values (unsorted na dt num feeds)"
      by (simp add: build_Inr_iff)
    then show ?thesis
      using times_sort_values [of "unsorted na dt num feeds"] by simp
  qed
  then obtain ts k where m: "map created_at df = map Some ts @ replicate k None"
    and s: "sorted ts"
    by blast
  have "le_time (created_at (df ! i)) (created_at (df ! Suc i))" if i: "Suc i < length ts" for i
  proof -
    from m have len: "length df = length ts + k"
      by (metis length_append length_map length_replicate)
    have "created_at (df ! j) = Some (ts ! j)" if "j < length ts" for j
    proof -
      have "created_at (df ! j) = map created_at df ! j"
        using that len by simp
      also have "\<dots> = Some (ts ! j)"
        using that by (simp add: m nth_append)
      finally show ?thesis .
    qed
    then have "created_at (df ! i) = Some (ts ! i)" "created_at (df ! Suc i) = Some (ts ! Suc i)"
      using i by simp_all
    moreover have "ts ! i \<le> ts ! Suc i"
      using s i by (simp add: sorted_iff_nth_Suc)
    ultimately show ?thesis
      by (simp add: le_time_def)
  qed
  with m s show ?thesis by blast
qed

text \<open>The example feed in reverse order comes back in ascending order: the entry at
  position 1 first.\<close>

theorem fetch_data_sorted_witness:
  "fetch_data nat_string read_like decimal (Response 200 (Object (Some (rev example_feed))))
      = ([(example_series ! 0)\<lparr>label := 1\<rparr>, (example_series ! 1)\<lparr>label := 0\<rparr>], None)
   \<and> (\<exists>ts k. map created_at [(example_series ! 0)\<lparr>label := 1\<rparr>, (example_series ! 1)\<lparr>label := 0\<rparr>]
          = map Some ts @ replicate k None \<and> sorted ts)
   \<and> le_time (created_at (example_series ! 0)) (created_at (example_series ! 1))"
proof -
  have f: "fetch_data nat_string read_like decimal (Response 200 (Object (Some (rev example_feed))))
      = ([(example_series ! 0)\<lparr>label := 1\<rparr>, (example_series ! 1)\<lparr>label := 0\<rparr>], None)"
    by (simp add: fetch_defs build_example_rev)
  have "le_time (created_at (example_series ! 0)) (created_at (example_series ! 1))"
    by (simp add: example_series_def le_time_def time_defs)
  with fetch_data_sorted [OF f] f show ?thesis
    by blast
qed

text \<open>
  A feed whose second entry of three has the empty string for \<^verbatim>\<open>created_at\<close> is fetched
  without a message; the row of that entry has no timestamp and is the last of the frame,
  and the pair it makes with the row before it does not satisfy \<^verbatim>\<open><=\<close>.
\<close>

theorem unstamped_row_counterexample:
  "fetch_data nat_string read_like decimal (Response 200 (Object (Some unstamped_feed)))
      = (unstamped_series, None)
   \<and> Suc 1 < length unstamped_series
   \<and> created_at (unstamped_series ! Suc 1) = None
   \<and> \<not> le_time (created_at (unstamped_series ! 1)) (created_at (unstamped_series ! Suc 1))"
  by (simp add: fetch_defs build_unstamped) (simp add: unstamped_series_def le_time_def)

text \<open>
  C3, as the program has it. Take a feed that lines 26 to 35 turn into the frame \<open>df\<close>,
  and put in place of \<^verbatim>\<open>field1\<close> (or \<^verbatim>\<open>field2\<close>) of the entry at position \<open>i\<close> a value
  \<open>v\<close> that is no number: a null, a string that does not parse, or no key at all. If \<open>v\<close>
  is a null or a string, or another entry still carries the key, the feed is still turned
  into a frame, and that frame is \<open>df\<close> with this one reading of the row labelled \<open>i\<close>
  NaN: no other reading, timestamp or row changes.
\<close>

theorem bad_field_blanks_one_reading:
  assumes "build na dt num feeds = Inr df" and "i < length feeds" and "to_numeric num v = None"
  shows "(v \<noteq> None \<or> (\<exists>j<length feeds. j \<noteq> i \<and> raw_field1 (feeds ! j) \<noteq> None) \<longrightarrow>
            build na dt num (feeds[i := (feeds ! i)\<lparr>raw_field1 := v\<rparr>]) = Inr (map (blank1 i) df))
       \<and> (v \<noteq> None \<or> (\<exists>j<length feeds. j \<noteq> i \<and> raw_field2 (feeds ! j) \<noteq> None) \<longrightarrow>
            build na dt num (feeds[i := (feeds ! i)\<lparr>raw_field2 := v\<rparr>]) = Inr (map (blank2 i) df))"
  using blank_update [OF assms] assms(2)
  by (simp add: has_column_update)

text \<open>The string \<^verbatim>\<open>abc\<close> in place of a field of the first example entry blanks that
  reading and nothing else.\<close>

theorem bad_field_witness:
  "build nat_string read_like decimal example_feed = Inr example_series
   \<and> to_numeric decimal (Some (RStr ''abc'')) = None
   \<and> build nat_string read_like decimal
       (example_feed[0 := (example_feed ! 0)\<lparr>raw_field1 := Some (RStr ''abc'')\<rparr>])
       = Inr [(example_series ! 0)\<lparr>field1 := None\<rparr>, example_series ! 1]
   \<and> build nat_string read_like decimal
       (example_feed[0 := (example_feed ! 0)\<lparr>raw_field2 := Some (RStr ''abc'')\<rparr>])
       = Inr [(example_series ! 0)\<lparr>field2 := None\<rparr>, example_series ! 1]"
proof -
  have n: "to_numeric decimal (Some (RStr ''abc'')) = None"
    by (simp add: to_numeric_def parse_defs)
  have l: "0 < length example_feed"
    by (simp add: example_feed_def)
  from bad_field_blanks_one_reading [OF build_example l n] show ?thesis
    using n build_example by (simp add: example_series_def blank1_def blank2_def)
qed

text \<open>
  When no entry of the feed carries the key, the column does not exist: for the feed of one
  entry without \<^verbatim>\<open>field2\<close>, \<^verbatim>\<open>df['field2']\<close> raises KeyError and \<^verbatim>\<open>fetch_data\<close> returns
  the empty frame with the processing message.
\<close>

theorem absent_field_counterexample:
  "fetch_data nat_string read_like decimal (Response 200 (Object (Some one_field_feed)))
     = ([], Some (''Error processing ThingSpeak data'', KeyError ''field2''))"
  by (simp add: one_field_feed_def fetch_defs build_defs parse_defs)

text \<open>
  C4 asks that a series of exactly one sample give a latest value and an undefined
  difference, without raising. The program does not: for every frame of one row,
  \<^verbatim>\<open>df['field1'].iloc[-2]\<close> is out of bounds and \<^verbatim>\<open>main\<close> ends with IndexError.
\<close>

theorem home_single_sample_raises:
  assumes "length df = 1"
  shows "home df = Inl IndexError"
proof -
  from assms have "df \<noteq> []" by auto
  with assms show ?thesis by (simp add: home_def metric_eq)
qed

text \<open>A feed with the first example entry alone is fetched without a message, and the Home
  page raises.\<close>

theorem home_single_sample_witness:
  "fetch_data nat_string read_like decimal (Response 200 (Object (Some [example_feed ! 0])))
     = ([example_series ! 0], None)
   \<and> length [example_series ! 0] = 1
   \<and> main nat_string read_like decimal (Response 200 (Object (Some [example_feed ! 0])))
       = (None, Inl IndexError)
   \<and> field1 (example_series ! 0) = Some 20"
proof -
  have f: "fetch_data nat_string read_like decimal (Response 200 (Object (Some [example_feed ! 0])))
     = ([example_series ! 0], None)"
    by (simp add: example_feed_def example_series_def fetch_defs build_defs parse_defs time_defs)
  from home_single_sample_raises [of "[example_series ! 0]"] f show ?thesis
    by (simp add: main_def example_series_def)
qed

text \<open>
  C5 asks that a series with a column of nulls only be shown without crashing. The program
  does not: for every non-empty frame with such a column \<^verbatim>\<open>main\<close> ends with an exception,
  and with two rows or more, the nulls in \<^verbatim>\<open>field1\<close> and a timestamp in the first and in
  the last row it is the KeyError of \<^verbatim>\<open>df.loc[nan, 'created_at']\<close>, since \<^verbatim>\<open>idxmax\<close> of the
  column is NaN. (A pandas whose \<^verbatim>\<open>idxmax\<close> raises on such a column ends \<^verbatim>\<open>main\<close> one call
  earlier, with ValueError.)
\<close>

theorem home_all_null_field_raises:
  assumes "df \<noteq> []"
    and "list_all (\<lambda>r. field1 r = None) df \<or> list_all (\<lambda>r. field2 r = None) df"
  shows "(\<exists>e. home df = Inl e)
    \<and> (2 \<le> length df \<and> list_all (\<lambda>r. field1 r = None) df
         \<and> created_at (hd df) \<noteq> None \<and> created_at (last df) \<noteq> None
       \<longrightarrow> home df = Inl (KeyError ''nan''))"
proof -
  have "\<exists>e. home df = Inl e"
    using assms by (auto simp: home_def extremes_all_null split: sum.splits prod.splits)
  moreover have "home df = Inl (KeyError ''nan'')"
    if "2 \<le> length df" "list_all (\<lambda>r. field1 r = None) df"
      "created_at (hd df) \<noteq> None" "created_at (last df) \<noteq> None"
    using that assms(1) by (auto simp: home_def metric_eq data_range_eq extremes_all_null)
  ultimately show ?thesis by blast
qed

text \<open>The feed of two entries with a null \<^verbatim>\<open>field1\<close> is fetched without a message; the
  maximum of the column is NaN, and the Home page raises.\<close>

theorem home_all_null_field_witness:
  "fetch_data nat_string read_like decimal (Response 200 (Object (Some null_feed)))
     = (null_series, None)
   \<and> null_series \<noteq> [] \<and> list_all (\<lambda>r. field1 r = None) null_series \<and> 2 \<le> length null_series
   \<and> series_max (map field1 null_series) = None
   \<and> main nat_string read_like decimal (Response 200 (Object (Some null_feed)))
       = (None, Inl (KeyError ''nan''))"
proof -
  have f: "fetch_data nat_string read_like decimal (Response 200 (Object (Some null_feed)))
     = (null_series, None)"
    by (simp add: null_feed_def null_series_def fetch_defs build_defs parse_defs time_defs)
  have a: "null_series \<noteq> []" and b: "list_all (\<lambda>r. field1 r = None) null_series"
    and c: "2 \<le> length null_series"
    and t: "created_at (hd null_series) \<noteq> None" "created_at (last null_series) \<noteq> None"
    by (simp_all add: null_series_def)
  have d: "series_max (map field1 null_series) = None"
    by (simp add: null_series_def series_max_def dropna_def)
  from home_all_null_field_raises [OF a disjI1 [OF b]] show ?thesis
    using a b c d f t by (simp add: main_def)
qed

text \<open>
  C6. For a frame with distinct labels and a column \<open>f\<close> that holds a value, the maximum
  found is the greatest value of the column, nulls left aside, and the timestamp found
  for it is that of the first row, in the order of the frame, that holds it; likewise the
  minimum.
\<close>

theorem extremes_first_occurrence:
  assumes "distinct (map label df)" and "list_ex (\<lambda>r. f r \<noteq> None) df"
  shows "\<exists>i k v w. i < length df \<and> k < length df
     \<and> extremes f df = Inr (Some v, Some w, created_at (df ! i), created_at (df ! k))
     \<and> f (df ! i) = Some v
     \<and> (\<forall>j<length df. \<forall>u. f (df ! j) = Some u \<longrightarrow> u \<le> v)
     \<and> (\<forall>j<i. f (df ! j) \<noteq> Some v)
     \<and> f (df ! k) = Some w
     \<and> (\<forall>j<length df. \<forall>u. f (df ! j) = Some u \<longrightarrow> w \<le> u)
     \<and> (\<forall>j<k. f (df ! j) \<noteq> Some w)"
proof -
  have "\<exists>i v. i < length df
     \<and> map_option fst (argbest (\<lambda>v m. m < v) None (map (\<lambda>r. (label r, f r)) df)) = Some (label (df ! i))
     \<and> f (df ! i) = Some v
     \<and> (\<forall>j<length df. \<forall>u. f (df ! j) = Some u \<longrightarrow> \<not> v < u)
     \<and> (\<forall>j<i. \<forall>u. f (df ! j) = Some u \<longrightarrow> u < v)"
    by (rule argbest_labelled [where better = "\<lambda>v m. m < v", OF _ _ _ assms(2)]) simp_all
  then obtain i v where i: "i < length df" "idxmax f df = Some (label (df ! i))" "f (df ! i) = Some v"
    and vmax: "\<forall>j<length df. \<forall>u. f (df ! j) = Some u \<longrightarrow> u \<le> v"
    and vfirst: "\<forall>j<i. \<forall>u. f (df ! j) = Some u \<longrightarrow> u < v"
    unfolding idxmax_def not_less by blast
  have "\<exists>k w. k < length df
     \<and> map_option fst (argbest (\<lambda>v m. v < m) None (map (\<lambda>r. (label r, f r)) df)) = Some (label (df ! k))
     \<and> f (df ! k) = Some w
     \<and> (\<forall>j<length df. \<forall>u. f (df ! j) = Some u \<longrightarrow> \<not> u < w)
     \<and> (\<forall>j<k. \<forall>u. f (df ! j) = Some u \<longrightarrow> w < u)"
    by (rule argbest_labelled [where better = "\<lambda>v m. v < m", OF _ _ _ assms(2)]) simp_all
  then obtain k w where k: "k < length df" "idxmin f df = Some (label (df ! k))" "f (df ! k) = Some w"
    and wmin: "\<forall>j<length df. \<forall>u. f (df ! j) = Some u \<longrightarrow> w \<le> u"
    and wfirst: "\<forall>j<k. \<forall>u. f (df ! j) = Some u \<longrightarrow> w < u"
    unfolding idxmin_def not_less by blast
  have "Some v \<in> set (map f df)" using i(1,3) by (metis length_map nth_map nth_mem)
  moreover have "u \<le> v" if "Some u \<in> set (map f df)" for u
    using that vmax by (auto simp: in_set_conv_nth)
  ultimately have mx: "series_max (map f df) = Some v" by (rule series_max_eqI)
  have "Some w \<in> set (map f df)" using k(1,3) by (metis length_map nth_map nth_mem)
  moreover have "w \<le> u" if "Some u \<in> set (map f df)" for u
    using that wmin by (auto simp: in_set_conv_nth)
  ultimately have mn: "series_min (map f df) = Some w" by (rule series_min_eqI)
  have "extremes f df = Inr (Some v, Some w, created_at (df ! i), created_at (df ! k))"
    by (simp add: extremes_def i(2) k(2) loc_nth [OF assms(1) i(1)] loc_nth [OF assms(1) k(1)] mx mn)
  moreover have "\<forall>j<i. f (df ! j) \<noteq> Some v" using vfirst by auto
  moreover have "\<forall>j<k. f (df ! j) \<noteq> Some w" using wfirst by auto
  ultimately show ?thesis
    using i(1,3) k(1,3) vmax wmin by blast
qed

text \<open>Values 5, 9, 9 at the timestamps 1, 2, 3: the maximum 9 is reported at 2, the first
  of its two rows; in the other column the minimum 5 is reported at 2 as well.\<close>

theorem extremes_witness:
  "distinct (map label tie_series) \<and> list_ex (\<lambda>r. field1 r \<noteq> None) tie_series
   \<and> (\<exists>i k v w. i < length tie_series \<and> k < length tie_series
     \<and> extremes field1 tie_series
         = Inr (Some v, Some w, created_at (tie_series ! i), created_at (tie_series ! k))
     \<and> field1 (tie_series ! i) = Some v
     \<and> (\<forall>j<length tie_series. \<forall>u. field1 (tie_series ! j) = Some u \<longrightarrow> u \<le> v)
     \<and> (\<forall>j<i. field1 (tie_series ! j) \<noteq> Some v)
     \<and> field1 (tie_series ! k) = Some w
     \<and> (\<forall>j<length tie_series. \<forall>u. field1 (tie_series ! j) = Some u \<longrightarrow> w \<le> u)
     \<and> (\<forall>j<k. field1 (tie_series ! j) \<noteq> Some w))
   \<and> extremes field1 tie_series = Inr (Some 9, Some 5, Some 2, Some 1)
   \<and> extremes field2 tie_series = Inr (Some 9, Some 5, Some 1, Some 2)"
proof -
  have d: "distinct (map label tie_series)"
    and e: "list_ex (\<lambda>r. field1 r \<noteq> None) tie_series"
    by (simp_all add: tie_series_def)
  have x: "extremes field1 tie_series = Inr (Some 9, Some 5, Some 2, Some 1)"
    and y: "extremes field2 tie_series = Inr (Some 9, Some 5, Some 1, Some 2)"
    by (simp_all add: tie_series_def home_defs)
  from extremes_first_occurrence [OF d e] d e x y show ?thesis
    by simp
qed

text \<open>
  C7. For a non-empty frame the current reading of a column is the value at the last
  position, null or not; with two rows or more the difference shown is that value minus
  the value one position before, which is NaN when the last value is null. What the Home
  page shows, when it is shown, are these values.
\<close>

theorem latest_is_last_position:
  assumes "df \<noteq> []"
  shows "current_temp f df = Inr (f (last df))
    \<and> (2 \<le> length df \<longrightarrow>
         metric f df = Inr (f (last df), minus_nan (f (last df)) (f (df ! (length df - 2)))))
    \<and> (f (last df) = None \<longrightarrow> minus_nan (f (last df)) prev = None)
    \<and> (\<forall>s. home df = Inr (Dashboard s) \<longrightarrow>
          current_temp1 s = field1 (last df) \<and> current_temp2 s = field2 (last df)
          \<and> delta1 s = minus_nan (field1 (last df)) (field1 (df ! (length df - 2)))
          \<and> delta2 s = minus_nan (field2 (last df)) (field2 (df ! (length df - 2))))"
proof -
  have "current_temp1 s = field1 (last df) \<and> current_temp2 s = field2 (last df)
          \<and> delta1 s = minus_nan (field1 (last df)) (field1 (df ! (length df - 2)))
          \<and> delta2 s = minus_nan (field2 (last df)) (field2 (df ! (length df - 2)))"
    if "home df = Inr (Dashboard s)" for s
  proof -
    from home_Dashboard [OF that]
    have m1: "metric field1 df = Inr (current_temp1 s, delta1 s)"
      and m2: "metric field2 df = Inr (current_temp2 s, delta2 s)"
      by simp_all
    from m1 assms have "2 \<le> length df"
      by (simp add: metric_eq split: if_splits)
    with m1 m2 assms show ?thesis
      by (auto simp: metric_eq)
  qed
  then show ?thesis
    using assms by (simp add: current_temp_last metric_eq minus_nan_def)
qed

text \<open>In the example frame the last \<^verbatim>\<open>field2\<close> is null and the one before is 21: the
  current reading and the difference are both NaN.\<close>

theorem latest_is_last_position_witness:
  "example_series \<noteq> [] \<and> 2 \<le> length example_series
   \<and> field2 (last example_series) = None \<and> field2 (example_series ! 0) = Some 21
   \<and> current_temp field2 example_series = Inr None
   \<and> metric field2 example_series = Inr (None, None)
   \<and> metric field1 example_series = Inr (Some 22.5, Some 2.5)"
proof -
  have a: "example_series \<noteq> []"
    by (simp add: example_series_def)
  from latest_is_last_position [OF a, of field2] latest_is_last_position [OF a, of field1]
  show ?thesis
    by (simp add: example_series_def minus_nan_def)
qed

text \<open>
  C8. Every entry of a feed that is turned into a frame has a row there, labelled with the
  entry's position, whose timestamp is the entry's \<^verbatim>\<open>created_at\<close> parsed as UTC, in the
  format of the column, plus the offset of minus three hours; an entry whose
  \<^verbatim>\<open>created_at\<close> stands for no value has a row without timestamp.
\<close>

theorem timestamps_shifted:
  assumes "build na dt num feeds = Inr df" and "i < length feeds"
  shows "\<exists>r. r \<in> set df \<and> label r = i
    \<and> (na (raw_created_at (feeds ! i)) \<longrightarrow> created_at r = None)
    \<and> (\<not> na (raw_created_at (feeds ! i)) \<longrightarrow>
         (\<exists>t. dt (format_source na feeds) (raw_created_at (feeds ! i)) = Some t
            \<and> created_at r = Some (t + TZ_OFFSET)))
    \<and> TZ_OFFSET = - (3 * 3600 * 1000000000)"
proof -
  from assms(1) have ok: "readable na dt feeds"
    and df: "df = sort_values (unsorted na dt num feeds)"
    by (simp_all add: build_Inr_iff)
  let ?s = "raw_created_at (feeds ! i)"
  let ?r = "unsorted na dt num feeds ! i"
  have "?r \<in> set (unsorted na dt num feeds)"
    using assms(2) by (simp add: length_unsorted)
  then have mem: "?r \<in> set df"
    by (simp add: df set_sort_values)
  have r: "?r = sample na dt num (format_source na feeds) i (feeds ! i)"
    using assms(2) by (simp add: unsorted_def)
  have "\<exists>t. dt (format_source na feeds) ?s = Some t \<and> created_at ?r = Some (t + TZ_OFFSET)"
    if "\<not> na ?s"
  proof -
    from ok assms(2) that obtain t where "dt (format_source na feeds) ?s = Some t"
      by (auto simp: readable_def list_all_length)
    with that show ?thesis
      by (simp add: r sample_def plus_offset_def)
  qed
  moreover have "created_at ?r = None" if "na ?s"
    using that by (simp add: r sample_def)
  moreover have "label ?r = i"
    by (simp add: r sample_def)
  ultimately show ?thesis
    using mem by (auto simp: TZ_OFFSET_def)
qed

text \<open>The entries stamped 2024-01-01T00:00:00Z and 2024-01-02T00:00:00Z give the rows
  stamped 2023-12-31 21:00:00 and 2024-01-01 21:00:00.\<close>

theorem timestamps_shifted_witness:
  "build nat_string read_like decimal example_feed = Inr example_series
   \<and> read_like ''2024-01-01T00:00:00Z'' ''2024-01-01T00:00:00Z'' = Some (civil 2024 1 1 0 0 0)
   \<and> read_like ''2024-01-01T00:00:00Z'' ''2024-01-02T00:00:00Z'' = Some (civil 2024 1 2 0 0 0)
   \<and> map created_at example_series
       = [Some (civil 2023 12 31 21 0 0), Some (civil 2024 1 1 21 0 0)]
   \<and> (\<exists>r. r \<in> set example_series \<and> label r = 1
        \<and> (\<exists>t. read_like (format_source nat_string example_feed)
                 (raw_created_at (example_feed ! 1)) = Some t
             \<and> created_at r = Some (t + TZ_OFFSET))
        \<and> TZ_OFFSET = - (3 * 3600 * 1000000000))"
proof -
  have l: "1 < length example_feed"
    by (simp add: example_feed_def)
  have n: "\<not> nat_string (raw_created_at (example_feed ! 1))"
    by (simp add: example_feed_def feed_entry_def nat_string_def)
  have "read_like ''2024-01-01T00:00:00Z'' ''2024-01-01T00:00:00Z'' = Some (civil 2024 1 1 0 0 0)"
    and "read_like ''2024-01-01T00:00:00Z'' ''2024-01-02T00:00:00Z'' = Some (civil 2024 1 2 0 0 0)"
    by (simp_all add: parse_defs)
  moreover have "map created_at example_series
       = [Some (civil 2023 12 31 21 0 0), Some (civil 2024 1 1 21 0 0)]"
    by (simp add: example_series_def)
  ultimately show ?thesis
    using timestamps_shifted [OF build_example l] build_example n by simp
qed

text \<open>
  C9. For a non-empty frame whose rows all have a timestamp, in ascending order, the date
  range is the timestamp of the first row, the timestamp of the last row, and the whole
  days between them, which is the truncation of their difference and is not negative;
  none of it depends on the readings. What the Home page shows, when it is shown, are
  these values.
\<close>

theorem data_range_sorted:
  assumes "df \<noteq> []" and "map created_at df = map Some ts" and "sorted ts"
  shows "data_range df = Inr (hd ts, last ts, whole_days_truncated (last ts - hd ts))
    \<and> created_at (hd df) = Some (hd ts) \<and> created_at (last df) = Some (last ts)
    \<and> 0 \<le> whole_days_truncated (last ts - hd ts)
    \<and> data_range (map (\<lambda>r. r\<lparr>field1 := x, field2 := y\<rparr>) df) = data_range df
    \<and> (\<forall>s. home df = Inr (Dashboard s) \<longrightarrow>
          first_timestamp s = hd ts \<and> last_timestamp s = last ts
          \<and> days_passed s = whole_days_truncated (last ts - hd ts))"
proof -
  let ?td = "last ts - hd ts"
  from assms(1,2) have ne: "ts \<noteq> []"
    by auto
  have "created_at (hd df) = hd (map created_at df)" "created_at (last df) = last (map created_at df)"
    using assms(1) by (simp_all add: hd_map last_map)
  then have ends: "created_at (hd df) = Some (hd ts)" "created_at (last df) = Some (last ts)"
    using ne by (simp_all add: assms(2) hd_map last_map)
  have "hd ts \<le> last ts"
    using assms(3) ne by (rule sorted_hd_last)
  then have nonneg: "0 \<le> ?td"
    by simp
  then have eq: "days ?td = whole_days_truncated ?td"
    by (cases "?td = 0") (simp_all add: days_def whole_days_truncated_def)
  have pos: "0 \<le> whole_days_truncated ?td"
    using nonneg by (simp add: eq [symmetric] days_def pos_imp_zdiv_nonneg_iff)
  have dr: "data_range df = Inr (hd ts, last ts, whole_days_truncated ?td)"
    using assms(1) by (simp add: data_range_eq ends eq)
  have "map created_at (map (\<lambda>r. r\<lparr>field1 := x, field2 := y\<rparr>) df) = map created_at df"
    by simp
  then have ind: "data_range (map (\<lambda>r. r\<lparr>field1 := x, field2 := y\<rparr>) df) = data_range df"
    by (simp only: data_range_def)
  have "first_timestamp s = hd ts \<and> last_timestamp s = last ts
          \<and> days_passed s = whole_days_truncated ?td"
    if "home df = Inr (Dashboard s)" for s
    using home_Dashboard [OF that] dr by auto
  with dr pos ind ends show ?thesis by blast
qed

text \<open>The example frame spans one day.\<close>

theorem data_range_sorted_witness:
  "example_series \<noteq> []
   \<and> map created_at example_series = map Some [civil 2023 12 31 21 0 0, civil 2024 1 1 21 0 0]
   \<and> sorted [civil 2023 12 31 21 0 0, civil 2024 1 1 21 0 0]
   \<and> data_range example_series = Inr (civil 2023 12 31 21 0 0, civil 2024 1 1 21 0 0, 1)
   \<and> whole_days_truncated (civil 2024 1 1 21 0 0 - civil 2023 12 31 21 0 0) = 1"
proof -
  have a: "example_series \<noteq> []"
    and m: "map created_at example_series = map Some [civil 2023 12 31 21 0 0, civil 2024 1 1 21 0 0]"
    by (simp_all add: example_series_def)
  have b: "sorted [civil 2023 12 31 21 0 0, civil 2024 1 1 21 0 0]"
    by (simp add: time_defs)
  have c: "whole_days_truncated (civil 2024 1 1 21 0 0 - civil 2023 12 31 21 0 0) = 1"
    by (simp add: whole_days_truncated_def time_defs)
  from data_range_sorted [OF a m b] a m b c show ?thesis
    by simp
qed

text \<open>
  C10, as the program has it. When \<^verbatim>\<open>fetch_data\<close> returns without a message, the response
  carried a feed, the frame has as many rows as the feed has entries, and the rows are,
  up to their order, the Samples of the entries. The two readings of a Sample come from
  its own entry alone. Its timestamp is its own \<^verbatim>\<open>created_at\<close> read in the one format of
  the column, which pandas infers from the first \<^verbatim>\<open>created_at\<close> of the feed that stands for a
  value, plus the offset; every \<^verbatim>\<open>created_at\<close> of the feed fits that format or stands for no
  value, and then the Sample has no timestamp.
\<close>

theorem fetch_data_one_sample_per_entry:
  assumes "fetch_data na dt num r = (df, None)"
  shows "\<exists>status feeds. r = Response status (Object (Some feeds))
           \<and> length df = length feeds
           \<and> mset df = mset (map (\<lambda>(i, e). sample na dt num (format_source na feeds) i e)
                               (enumerate 0 feeds))
           \<and> readable na dt feeds"
proof -
  from assms obtain status feeds where r: "r = Response status (Object (Some feeds))"
    and b: "build na dt num feeds = Inr df"
    by (auto simp: fetch_data_success)
  from b have ok: "readable na dt feeds"
    and df: "df = sort_values (unsorted na dt num feeds)"
    by (simp_all add: build_Inr_iff)
  have "mset df = mset (unsorted na dt num feeds)"
    by (simp add: df mset_sort_values)
  then have "mset df = mset (map (\<lambda>(i, e). sample na dt num (format_source na feeds) i e)
                               (enumerate 0 feeds))"
    by (simp only: unsorted_enumerate)
  moreover have "length df = length feeds"
    by (simp add: df length_sort_values length_unsorted)
  ultimately show ?thesis using r ok by blast
qed

text \<open>The example feed and its frame.\<close>

theorem one_sample_per_entry_witness:
  "fetch_data nat_string read_like decimal (Response 200 (Object (Some example_feed)))
     = (example_series, None)
   \<and> length example_series = length example_feed
   \<and> mset example_series
       = mset (map (\<lambda>(i, e). sample nat_string read_like decimal
                     (format_source nat_string example_feed) i e) (enumerate 0 example_feed))
   \<and> format_source nat_string example_feed = ''2024-01-01T00:00:00Z''"
proof -
  have "format_source nat_string example_feed = ''2024-01-01T00:00:00Z''"
    by (simp add: format_source_def first_non_null_def example_feed_def feed_entry_def
        nat_string_def)
  with fetch_data_one_sample_per_entry [OF fetch_example] fetch_example show ?thesis
    by simp
qed

text \<open>
  The timestamp of a Sample does not come from its own entry alone. The two feeds below
  are fetched without a message and have the same entry at position 1, stamped
  \<^verbatim>\<open>12-01-2000\<close>: after a first entry stamped \<^verbatim>\<open>13-01-2000\<close> its row is stamped
  2000-01-11 21:00:00, after one stamped \<^verbatim>\<open>01-13-2000\<close> it is stamped 2000-11-30 21:00:00.
\<close>

theorem inferred_format_counterexample:
  "fetch_data nat_string read_like decimal (Response 200 (Object (Some dayfirst_feed)))
     = (dayfirst_series, None)
   \<and> fetch_data nat_string read_like decimal (Response 200 (Object (Some monthfirst_feed)))
     = (monthfirst_series, None)
   \<and> dayfirst_feed ! 1 = monthfirst_feed ! 1
   \<and> label (dayfirst_series ! 0) = 1 \<and> label (monthfirst_series ! 1) = 1
   \<and> created_at (dayfirst_series ! 0) = Some (civil 2000 1 11 21 0 0)
   \<and> created_at (monthfirst_series ! 1) = Some (civil 2000 11 30 21 0 0)
   \<and> created_at (dayfirst_series ! 0) \<noteq> created_at (monthfirst_series ! 1)"
  by (simp add: fetch_defs build_dayfirst build_monthfirst)
    (simp add: dayfirst_feed_def monthfirst_feed_def dayfirst_series_def monthfirst_series_def
      time_defs)

end
